theory Spec2Isabelle
  imports Main "HOL-Library.AList"
begin

section \<open>Rate limiter (lib/rate-limiter.ts)\<close>

text \<open>
  Numbers are JavaScript doubles in the source; every number the limiter handles is an
  integer far below \<open>2^53\<close> (request counts, epoch milliseconds), so they are modelled as
  \<open>int\<close>. The clock \<open>Date.now()\<close> is an explicit argument \<open>now\<close>.

  The store is a plain object used as a dictionary. It is modelled as an association list
  of its own properties in creation order: \<open>AList.update\<close> overwrites in place or appends,
  \<open>AList.delete\<close> removes, \<open>map_of\<close> reads an own property.
\<close>

record RateLimitData =
  count :: int
  resetTime :: int

type_synonym RateLimitStore = "(string \<times> RateLimitData) list"

text \<open>The file system: a path holds the text of a file, or nothing.\<close>

type_synonym FileSystem = "string \<rightharpoonup> string"

record RateLimiter =
  dbPath :: string
  window :: int
  max_rl :: int
  store :: RateLimitStore
  lastSave :: int
  saveDebounce :: int

text \<open>The result object \<open>{ allowed, resetTime? }\<close> of a check.\<close>

record CheckResult =
  allowed :: bool
  resetTime_res :: "int option"

subsection \<open>\<open>JSON.stringify\<close> of the store\<close>

definition digit_char :: "int \<Rightarrow> char" where
  "digit_char d = char_of (48 + d)"

function nat_to_string :: "int \<Rightarrow> string" where
  "nat_to_string n =
     (if n < 10 then [digit_char n] else nat_to_string (n div 10) @ [digit_char (n mod 10)])"
  by pat_completeness auto
termination
  by (relation "measure nat") auto

definition number_to_string :: "int \<Rightarrow> string" where
  "number_to_string i =
     (if i < 0 then CHR ''-'' # nat_to_string (- i) else nat_to_string i)"

definition hex_digit :: "int \<Rightarrow> char" where
  "hex_digit d = (if d < 10 then char_of (48 + d) else char_of (87 + d))"

text \<open>\<open>QuoteJSONString\<close>: the escapes of a string literal.\<close>

definition quote_char :: "char \<Rightarrow> string" where
  "quote_char c =
     (let n = (of_char c :: int) in
      if c = CHR 0x22 then [CHR 0x5C, CHR 0x22]
      else if c = CHR 0x5C then [CHR 0x5C, CHR 0x5C]
      else if n = 8 then [CHR 0x5C, CHR ''b'']
      else if n = 9 then [CHR 0x5C, CHR ''t'']
      else if n = 10 then [CHR 0x5C, CHR ''n'']
      else if n = 12 then [CHR 0x5C, CHR ''f'']
      else if n = 13 then [CHR 0x5C, CHR ''r'']
      else if n < 32 then [CHR 0x5C, CHR ''u'', CHR ''0'', CHR ''0'', hex_digit (n div 16), hex_digit (n mod 16)]
      else [c])"

definition quote_string :: "string \<Rightarrow> string" where
  "quote_string s = CHR 0x22 # concat (map quote_char s) @ [CHR 0x22]"

text \<open>
  Property order of an object: keys that are array indices (canonical decimal numerals
  below \<open>2^32 - 1\<close>) come first in ascending numeric order, the others follow in creation
  order.
\<close>

definition is_digit :: "char \<Rightarrow> bool" where
  "is_digit c = (48 \<le> (of_char c :: int) \<and> (of_char c :: int) \<le> 57)"

definition digits_value :: "string \<Rightarrow> int" where
  "digits_value s = foldl (\<lambda>acc c. 10 * acc + (of_char c - 48)) 0 s"

definition is_array_index :: "string \<Rightarrow> bool" where
  "is_array_index k =
     (k \<noteq> [] \<and> list_all is_digit k \<and> (k = ''0'' \<or> hd k \<noteq> CHR ''0'') \<and>
      length k \<le> 10 \<and> digits_value k < 4294967295)"

fun insert_index :: "string \<times> 'a \<Rightarrow> (string \<times> 'a) list \<Rightarrow> (string \<times> 'a) list" where
  "insert_index p [] = [p]"
| "insert_index p (q # qs) =
     (if digits_value (fst p) < digits_value (fst q) then p # q # qs
      else q # insert_index p qs)"

fun sort_indices :: "(string \<times> 'a) list \<Rightarrow> (string \<times> 'a) list" where
  "sort_indices [] = []"
| "sort_indices (p # ps) = insert_index p (sort_indices ps)"

definition own_property_order :: "(string \<times> 'a) list \<Rightarrow> (string \<times> 'a) list" where
  "own_property_order al =
     sort_indices (filter (\<lambda>(k, v). is_array_index k) al) @
     filter (\<lambda>(k, v). \<not> is_array_index k) al"

fun join :: "string \<Rightarrow> string list \<Rightarrow> string" where
  "join sep [] = []"
| "join sep [x] = x"
| "join sep (x # y # ys) = x @ sep @ join sep (y # ys)"

definition stringify_entry :: "RateLimitData \<Rightarrow> string" where
  "stringify_entry d =
     ''{'' @ quote_string ''count'' @ '':'' @ number_to_string (count d) @ '','' @
     quote_string ''resetTime'' @ '':'' @ number_to_string (resetTime d) @ ''}''"

definition JSON_stringify :: "RateLimitStore \<Rightarrow> string" where
  "JSON_stringify st =
     ''{'' @ join '','' (map (\<lambda>(k, d). quote_string k @ '':'' @ stringify_entry d)
                          (own_property_order st)) @ ''}''"

subsection \<open>\<open>JSON.parse\<close>\<close>

text \<open>
  The parser of the platform, as far as \<open>load\<close> needs it: a lexer over the characters
  and a push-down parser over the tokens. A number keeps its lexeme. \<open>Inl\<close> is the
  \<open>SyntaxError\<close> that \<open>JSON.parse\<close> throws.
\<close>

datatype json =
  JNull | JBool bool | JNumber string | JString string
  | JArray "json list" | JObject "(string \<times> json) list"

datatype token =
  TLBrace | TRBrace | TLBracket | TRBracket | TComma | TColon
  | TStr string | TNum string | TWord string

datatype lexstate =
  LDefault | LString string | LEscape string | LUnicode string string
  | LNumber string | LWord string

definition is_json_space :: "char \<Rightarrow> bool" where
  "is_json_space c = ((of_char c :: int) \<in> {9, 10, 13, 32})"

definition is_hex_digit :: "char \<Rightarrow> bool" where
  "is_hex_digit c =
     (let n = (of_char c :: int) in
      (48 \<le> n \<and> n \<le> 57) \<or> (65 \<le> n \<and> n \<le> 70) \<or> (97 \<le> n \<and> n \<le> 102))"

definition hex_value :: "char \<Rightarrow> int" where
  "hex_value c =
     (let n = (of_char c :: int) in
      if n \<le> 57 then n - 48 else if n \<le> 70 then n - 55 else n - 87)"

definition is_alpha :: "char \<Rightarrow> bool" where
  "is_alpha c =
     (let n = (of_char c :: int) in (65 \<le> n \<and> n \<le> 90) \<or> (97 \<le> n \<and> n \<le> 122))"

definition is_number_char :: "char \<Rightarrow> bool" where
  "is_number_char c = (is_digit c \<or> c \<in> set ''+-.eE'')"

definition punct_token :: "char \<Rightarrow> token option" where
  "punct_token c =
     (if c = CHR ''{'' then Some TLBrace else if c = CHR ''}'' then Some TRBrace
      else if c = CHR ''['' then Some TLBracket else if c = CHR '']'' then Some TRBracket
      else if c = CHR '','' then Some TComma else if c = CHR '':'' then Some TColon
      else None)"

definition simple_escape :: "char \<Rightarrow> char option" where
  "simple_escape c =
     (if c = CHR 0x22 then Some (CHR 0x22) else if c = CHR 0x5C then Some (CHR 0x5C)
      else if c = CHR ''/'' then Some (CHR ''/'') else if c = CHR ''b'' then Some (CHR 0x08)
      else if c = CHR ''f'' then Some (CHR 0x0C) else if c = CHR ''n'' then Some (CHR 0x0A)
      else if c = CHR ''r'' then Some (CHR 0x0D) else if c = CHR ''t'' then Some (CHR 0x09)
      else None)"

text \<open>
  The character that starts a token outside a string. Code units are the 8-bit
  characters of the model, so a \<open>\uXXXX\<close> escape is read as its low byte.
\<close>

definition lex_start :: "char \<Rightarrow> token list \<Rightarrow> (lexstate \<times> token list) option" where
  "lex_start c acc =
     (if is_json_space c then Some (LDefault, acc)
      else if c = CHR 0x22 then Some (LString [], acc)
      else if is_digit c \<or> c = CHR ''-'' then Some (LNumber [c], acc)
      else if is_alpha c then Some (LWord [c], acc)
      else case punct_token c of
             Some t \<Rightarrow> Some (LDefault, acc @ [t])
           | None \<Rightarrow> None)"

fun lex :: "lexstate \<Rightarrow> token list \<Rightarrow> string \<Rightarrow> token list option" where
  "lex LDefault acc [] = Some acc"
| "lex (LNumber n) acc [] = Some (acc @ [TNum n])"
| "lex (LWord w) acc [] = Some (acc @ [TWord w])"
| "lex _ acc [] = None"
| "lex LDefault acc (c # cs) =
     (case lex_start c acc of Some (st, acc') \<Rightarrow> lex st acc' cs | None \<Rightarrow> None)"
| "lex (LString s) acc (c # cs) =
     (if c = CHR 0x22 then lex LDefault (acc @ [TStr s]) cs
      else if c = CHR 0x5C then lex (LEscape s) acc cs
      else if (of_char c :: int) < 32 then None
      else lex (LString (s @ [c])) acc cs)"
| "lex (LEscape s) acc (c # cs) =
     (if c = CHR ''u'' then lex (LUnicode s []) acc cs
      else case simple_escape c of
             Some e \<Rightarrow> lex (LString (s @ [e])) acc cs
           | None \<Rightarrow> None)"
| "lex (LUnicode s h) acc (c # cs) =
     (if \<not> is_hex_digit c then None
      else if length h < 3 then lex (LUnicode s (h @ [c])) acc cs
      else lex (LString (s @ [char_of (16 * hex_value (last h) + hex_value c)])) acc cs)"
| "lex (LNumber n) acc (c # cs) =
     (if is_number_char c then lex (LNumber (n @ [c])) acc cs
      else case lex_start c (acc @ [TNum n]) of
             Some (st, acc') \<Rightarrow> lex st acc' cs
           | None \<Rightarrow> None)"
| "lex (LWord w) acc (c # cs) =
     (if is_alpha c then lex (LWord (w @ [c])) acc cs
      else case lex_start c (acc @ [TWord w]) of
             Some (st, acc') \<Rightarrow> lex st acc' cs
           | None \<Rightarrow> None)"

text \<open>The number grammar: \<open>-? (0 | [1-9][0-9]*) (. [0-9]+)? ([eE] [+-]? [0-9]+)?\<close>.\<close>

definition all_digits1 :: "string \<Rightarrow> bool" where
  "all_digits1 s = (s \<noteq> [] \<and> list_all is_digit s)"

definition valid_exponent :: "string \<Rightarrow> bool" where
  "valid_exponent s =
     (case s of
        [] \<Rightarrow> True
      | c # r \<Rightarrow> (c = CHR ''e'' \<or> c = CHR ''E'') \<and>
                 (case r of
                    [] \<Rightarrow> False
                  | d # r' \<Rightarrow> if d = CHR ''+'' \<or> d = CHR ''-'' then all_digits1 r'
                             else all_digits1 r))"

definition valid_fraction :: "string \<Rightarrow> bool" where
  "valid_fraction s =
     (case s of
        [] \<Rightarrow> True
      | c # r \<Rightarrow> if c = CHR ''.''
                 then takeWhile is_digit r \<noteq> [] \<and> valid_exponent (dropWhile is_digit r)
                 else valid_exponent s)"

definition valid_number :: "string \<Rightarrow> bool" where
  "valid_number s =
     (let u = (case s of c # r \<Rightarrow> if c = CHR ''-'' then r else s | [] \<Rightarrow> s);
          ip = takeWhile is_digit u
      in ip \<noteq> [] \<and> (ip = ''0'' \<or> hd ip \<noteq> CHR ''0'') \<and> valid_fraction (dropWhile is_digit u))"

datatype frame = ArrF "json list" | ObjF "(string \<times> json) list" string

datatype pstate =
  PValue "frame list"
  | PArrStart "frame list"
  | PObjStart "frame list"
  | PArrAfter "json list" "frame list"
  | PObjKey "(string \<times> json) list" "frame list"
  | PObjColon "(string \<times> json) list" string "frame list"
  | PObjAfter "(string \<times> json) list" "frame list"
  | PDone json

text \<open>A finished value goes to the enclosing array or object; a repeated key overwrites.\<close>

fun push_value :: "json \<Rightarrow> frame list \<Rightarrow> pstate" where
  "push_value v [] = PDone v"
| "push_value v (ArrF xs # st) = PArrAfter (xs @ [v]) st"
| "push_value v (ObjF ms k # st) = PObjAfter (AList.update k v ms) st"

fun start_value :: "token \<Rightarrow> frame list \<Rightarrow> pstate option" where
  "start_value (TStr s) st = Some (push_value (JString s) st)"
| "start_value (TNum n) st = (if valid_number n then Some (push_value (JNumber n) st) else None)"
| "start_value (TWord w) st =
     (if w = ''true'' then Some (push_value (JBool True) st)
      else if w = ''false'' then Some (push_value (JBool False) st)
      else if w = ''null'' then Some (push_value JNull st)
      else None)"
| "start_value TLBracket st = Some (PArrStart st)"
| "start_value TLBrace st = Some (PObjStart st)"
| "start_value _ st = None"

fun pstep :: "pstate \<Rightarrow> token \<Rightarrow> pstate option" where
  "pstep (PValue st) t = start_value t st"
| "pstep (PArrStart st) t =
     (if t = TRBracket then Some (push_value (JArray []) st) else start_value t (ArrF [] # st))"
| "pstep (PObjStart st) t =
     (case t of
        TRBrace \<Rightarrow> Some (push_value (JObject []) st)
      | TStr k \<Rightarrow> Some (PObjColon [] k st)
      | _ \<Rightarrow> None)"
| "pstep (PArrAfter xs st) t =
     (case t of
        TComma \<Rightarrow> Some (PValue (ArrF xs # st))
      | TRBracket \<Rightarrow> Some (push_value (JArray xs) st)
      | _ \<Rightarrow> None)"
| "pstep (PObjKey ms st) t = (case t of TStr k \<Rightarrow> Some (PObjColon ms k st) | _ \<Rightarrow> None)"
| "pstep (PObjColon ms k st) t = (if t = TColon then Some (PValue (ObjF ms k # st)) else None)"
| "pstep (PObjAfter ms st) t =
     (case t of
        TComma \<Rightarrow> Some (PObjKey ms st)
      | TRBrace \<Rightarrow> Some (push_value (JObject ms) st)
      | _ \<Rightarrow> None)"
| "pstep (PDone v) t = None"

fun psteps :: "pstate \<Rightarrow> token list \<Rightarrow> pstate option" where
  "psteps p [] = Some p"
| "psteps p (t # ts) = (case pstep p t of Some p' \<Rightarrow> psteps p' ts | None \<Rightarrow> None)"

datatype SyntaxError = SyntaxError

definition JSON_parse :: "string \<Rightarrow> SyntaxError + json" where
  "JSON_parse text =
     (case lex LDefault [] text of
        None \<Rightarrow> Inl SyntaxError
      | Some ts \<Rightarrow>
          (case psteps (PValue []) ts of
             Some (PDone v) \<Rightarrow> Inr v
           | _ \<Rightarrow> Inl SyntaxError))"

text \<open>
  Reading a parsed value as a store. Only the shape that \<open>save\<close> writes is represented:
  an object whose members are objects with integer \<open>count\<close> and \<open>resetTime\<close>.
\<close>

definition integer_value :: "string \<Rightarrow> int option" where
  "integer_value n =
     (case n of
        [] \<Rightarrow> None
      | c # r \<Rightarrow> if c = CHR ''-'' then (if all_digits1 r then Some (- digits_value r) else None)
                 else if all_digits1 n then Some (digits_value n) else None)"

definition entry_of_json :: "json \<Rightarrow> RateLimitData option" where
  "entry_of_json v =
     (case v of
        JObject ms \<Rightarrow>
          (case (map_of ms ''count'', map_of ms ''resetTime'') of
             (Some (JNumber c), Some (JNumber r)) \<Rightarrow>
               (case (integer_value c, integer_value r) of
                  (Some ci, Some ri) \<Rightarrow> Some \<lparr>count = ci, resetTime = ri\<rparr>
                | _ \<Rightarrow> None)
           | _ \<Rightarrow> None)
      | _ \<Rightarrow> None)"

definition store_of_json :: "json \<Rightarrow> RateLimitStore" where
  "store_of_json v =
     (case v of
        JObject ms \<Rightarrow>
          own_property_order
            (concat (map (\<lambda>(k, e). case entry_of_json e of Some d \<Rightarrow> [(k, d)] | None \<Rightarrow> []) ms))
      | _ \<Rightarrow> [])"

subsection \<open>Construction and \<open>load\<close>\<close>

text \<open>
  \<open>readFile\<close> is the one of \<open>node:fs/promises\<close>: it returns a promise of the text, and
  \<open>load\<close> does not await it. What \<open>load\<close> hands to \<open>JSON.parse\<close> is the promise's
  \<open>toString()\<close>, which is the text \<open>[object Promise]\<close> whatever the promise holds.
\<close>

datatype 'a Promise = Promise 'a

definition existsSync :: "FileSystem \<Rightarrow> string \<Rightarrow> bool" where
  "existsSync fs path = (fs path \<noteq> None)"

definition readFile :: "FileSystem \<Rightarrow> string \<Rightarrow> (string option) Promise" where
  "readFile fs path = Promise (fs path)"

definition Promise_toString :: "'a Promise \<Rightarrow> string" where
  "Promise_toString p = ''[object Promise]''"

definition load :: "FileSystem \<Rightarrow> RateLimiter \<Rightarrow> RateLimiter" where
  "load fs rl =
     (if existsSync fs (dbPath rl)
      then (let data = readFile fs (dbPath rl) in
            case JSON_parse (Promise_toString data) of
              Inr v \<Rightarrow> rl\<lparr>store := store_of_json v\<rparr>
            | Inl error \<Rightarrow> rl\<lparr>store := []\<rparr>)
      else rl)"

text \<open>The field initialisers, then the constructor: it loads; its two timers are the
  operations \<open>save\<close> and \<open>cleanup\<close> below, run at any later time.\<close>

definition RateLimiter_init :: "string \<Rightarrow> int \<Rightarrow> int \<Rightarrow> RateLimiter" where
  "RateLimiter_init path w m =
     \<lparr>dbPath = path, window = w, max_rl = m, store = [], lastSave = 0, saveDebounce = 5000\<rparr>"

definition new_RateLimiter :: "FileSystem \<Rightarrow> string \<Rightarrow> int \<Rightarrow> int \<Rightarrow> RateLimiter" where
  "new_RateLimiter fs path w m = load fs (RateLimiter_init path w m)"

subsection \<open>\<open>save\<close> and \<open>check\<close>\<close>

text \<open>
  \<open>save\<close> returns at once inside the debounce interval; otherwise it records the time and
  rewrites the whole file. Creating the directory and a failing write are swallowed by
  the source, so the write is modelled as succeeding. The clock read inside \<open>save\<close> is
  the instant of the enclosing call.
\<close>

definition save :: "int \<Rightarrow> RateLimiter \<times> FileSystem \<Rightarrow> RateLimiter \<times> FileSystem" where
  "save now = (\<lambda>(rl, fs).
     if now - lastSave rl < saveDebounce rl then (rl, fs)
     else (rl\<lparr>lastSave := now\<rparr>, fs(dbPath rl \<mapsto> JSON_stringify (store rl))))"

text \<open>
  Reading \<open>this.store[clientId]\<close> follows the prototype chain. For a key that is not an
  own property but names a property of \<open>Object.prototype\<close>, the value read is that
  inherited function or object: it is truthy and its \<open>resetTime\<close> and \<open>count\<close> are
  undefined, so both comparisons of \<open>check\<close> are false and the call ends in
  \<open>entry.count++\<close>, which lands on the inherited object and not in the store.
\<close>

definition Object_prototype_keys :: "string list" where
  "Object_prototype_keys =
     [''constructor'', ''__defineGetter__'', ''__defineSetter__'', ''hasOwnProperty'',
      ''__lookupGetter__'', ''__lookupSetter__'', ''isPrototypeOf'', ''propertyIsEnumerable'',
      ''toString'', ''valueOf'', ''__proto__'', ''toLocaleString'']"

datatype property_value = Undefined | Inherited | Entry RateLimitData

definition get_property :: "RateLimitStore \<Rightarrow> string \<Rightarrow> property_value" where
  "get_property st k =
     (case map_of st k of
        Some d \<Rightarrow> Entry d
      | None \<Rightarrow> if k \<in> set Object_prototype_keys then Inherited else Undefined)"

definition check ::
  "int \<Rightarrow> string \<Rightarrow> RateLimiter \<times> FileSystem \<Rightarrow> CheckResult \<times> RateLimiter \<times> FileSystem" where
  "check now clientId = (\<lambda>(rl, fs).
     let rl1 = (case get_property (store rl) clientId of
                  Entry existing \<Rightarrow>
                    if now \<ge> resetTime existing
                    then rl\<lparr>store := AList.delete clientId (store rl)\<rparr> else rl
                | _ \<Rightarrow> rl)
     in case get_property (store rl1) clientId of
          Undefined \<Rightarrow>
            (\<lparr>allowed = True, resetTime_res = None\<rparr>,
             save now (rl1\<lparr>store := AList.update clientId
                                \<lparr>count = 1, resetTime = now + window rl1\<rparr> (store rl1)\<rparr>, fs))
        | Entry entry \<Rightarrow>
            if count entry \<ge> max_rl rl1
            then (\<lparr>allowed = False, resetTime_res = Some (resetTime entry)\<rparr>, rl1, fs)
            else (\<lparr>allowed = True, resetTime_res = None\<rparr>,
                  save now (rl1\<lparr>store := AList.update clientId
                                     (entry\<lparr>count := count entry + 1\<rparr>) (store rl1)\<rparr>, fs))
        | Inherited \<Rightarrow> (\<lparr>allowed = True, resetTime_res = None\<rparr>, save now (rl1, fs)))"

definition reset :: "int \<Rightarrow> string \<Rightarrow> RateLimiter \<times> FileSystem \<Rightarrow> RateLimiter \<times> FileSystem" where
  "reset now clientId = (\<lambda>(rl, fs). save now (rl\<lparr>store := AList.delete clientId (store rl)\<rparr>, fs))"

definition cleanup :: "int \<Rightarrow> RateLimiter \<times> FileSystem \<Rightarrow> RateLimiter \<times> FileSystem" where
  "cleanup now = (\<lambda>(rl, fs).
     let kept = filter (\<lambda>(k, d). \<not> now \<ge> resetTime d) (store rl) in
     if length kept \<noteq> length (store rl) then save now (rl\<lparr>store := kept\<rparr>, fs)
     else (rl\<lparr>store := kept\<rparr>, fs))"

subsection \<open>The in-memory fallback (middleware/security.ts)\<close>

text \<open>
  \<open>requestCounts\<close> is a \<open>Map\<close>; the configuration is read on every call and passed here as
  the two numbers it supplies.
\<close>

record EnvConfig =
  rateLimitMax :: int
  rateLimitWindow :: int

definition checkRateLimitFallback ::
  "EnvConfig \<Rightarrow> int \<Rightarrow> string \<Rightarrow> RateLimitStore \<Rightarrow> CheckResult \<times> RateLimitStore" where
  "checkRateLimitFallback config now clientId requestCounts =
     (case map_of requestCounts clientId of
        None \<Rightarrow>
          (\<lparr>allowed = True, resetTime_res = None\<rparr>,
           AList.update clientId \<lparr>count = 1, resetTime = now + rateLimitWindow config\<rparr> requestCounts)
      | Some clientData \<Rightarrow>
          if now > resetTime clientData
          then (\<lparr>allowed = True, resetTime_res = None\<rparr>,
                AList.update clientId \<lparr>count = 1, resetTime = now + rateLimitWindow config\<rparr>
                  requestCounts)
          else if count clientData \<ge> rateLimitMax config
          then (\<lparr>allowed = False, resetTime_res = Some (resetTime clientData)\<rparr>, requestCounts)
          else (\<lparr>allowed = True, resetTime_res = None\<rparr>,
                AList.update clientId (clientData\<lparr>count := count clientData + 1\<rparr>) requestCounts))"

subsection \<open>Sequences of calls\<close>

text \<open>Successive \<open>check\<close> calls of one client at the given times; the answers in order.\<close>

fun check_seq ::
  "int list \<Rightarrow> string \<Rightarrow> RateLimiter \<times> FileSystem \<Rightarrow> bool list \<times> RateLimiter \<times> FileSystem" where
  "check_seq [] clientId s = ([], s)"
| "check_seq (t # ts) clientId s =
     (case check t clientId s of
        (r, s') \<Rightarrow> (case check_seq ts clientId s' of (rs, s'') \<Rightarrow> (allowed r # rs, s'')))"

fun fallback_seq ::
  "EnvConfig \<Rightarrow> int list \<Rightarrow> string \<Rightarrow> RateLimitStore \<Rightarrow> bool list \<times> RateLimitStore" where
  "fallback_seq config [] clientId m = ([], m)"
| "fallback_seq config (t # ts) clientId m =
     (case checkRateLimitFallback config t clientId m of
        (r, m') \<Rightarrow> (case fallback_seq config ts clientId m' of (rs, m'') \<Rightarrow> (allowed r # rs, m'')))"

text \<open>The count an entry holds after \<open>n\<close> further calls inside its window.\<close>

definition count_after :: "int \<Rightarrow> int \<Rightarrow> int \<Rightarrow> int" where
  "count_after m c n = (if m \<le> c then c else min (c + n) m)"

text \<open>\<open>close\<close> saves the final state.\<close>

definition close :: "int \<Rightarrow> RateLimiter \<times> FileSystem \<Rightarrow> RateLimiter \<times> FileSystem" where
  "close now s = save now s"

text \<open>
  A restart: a limiter with \<open>max = 2\<close> over an empty disk serves two calls of client
  \<open>c1\<close> and is closed, which writes the file; then a new limiter is constructed over
  the same path.
\<close>

definition before_restart :: "RateLimiter \<times> FileSystem" where
  "before_restart =
     close 12000 (snd (check_seq [6000, 6001] ''c1''
                         (new_RateLimiter Map.empty ''db'' 60000 2, Map.empty)))"

definition after_restart :: "RateLimiter \<times> FileSystem" where
  "after_restart = (new_RateLimiter (snd before_restart) ''db'' 60000 2, snd before_restart)"

section \<open>Strings and regular expressions of the platform\<close>

text \<open>
  A JavaScript string is a sequence of 16-bit code units; the model has the 256 code
  units below \<open>U+0100\<close>, one \<open>char\<close> each. \<open>toLowerCase\<close> and \<open>trim\<close> are the
  built-ins on that range.
\<close>

definition toLowerCase_char :: "char \<Rightarrow> char" where
  "toLowerCase_char c =
     (let n = (of_char c :: int) in
      if (65 \<le> n \<and> n \<le> 90) \<or> (192 \<le> n \<and> n \<le> 214) \<or> (216 \<le> n \<and> n \<le> 222)
      then char_of (n + 32) else c)"

definition toLowerCase :: "string \<Rightarrow> string" where
  "toLowerCase s = map toLowerCase_char s"

definition is_white_space :: "char \<Rightarrow> bool" where
  "is_white_space c = ((of_char c :: int) \<in> {9, 10, 11, 12, 13, 32, 160})"

definition trim :: "string \<Rightarrow> string" where
  "trim s = rev (dropWhile is_white_space (rev (dropWhile is_white_space s)))"

fun startsWith :: "string \<Rightarrow> string \<Rightarrow> bool" where
  "startsWith s [] = True"
| "startsWith [] (p # ps) = False"
| "startsWith (c # cs) (p # ps) = (c = p \<and> startsWith cs ps)"

fun includes_str :: "string \<Rightarrow> string \<Rightarrow> bool" where
  "includes_str [] w = startsWith [] w"
| "includes_str (c # cs) w = (startsWith (c # cs) w \<or> includes_str cs w)"

text \<open>
  The regular expressions of the source are alternatives of sequences of three kinds of
  item: one character of a class, one or more characters of a class (\<open>+\<close>, greedy, with
  backtracking), and the latter as the capture group. All carry the \<open>i\<close> flag; none is
  global or sticky. Under the \<open>i\<close> flag a pattern letter matches both ASCII cases and no
  other code unit.
\<close>

datatype cls = Lit char | Dot | Digit | IdChar | NotSlash

datatype item = One cls | Plus cls | CapturePlus cls

type_synonym regex = "item list list"

definition ascii_fold :: "char \<Rightarrow> char" where
  "ascii_fold c =
     (let n = (of_char c :: int) in if 65 \<le> n \<and> n \<le> 90 then char_of (n + 32) else c)"

fun cls_matches :: "cls \<Rightarrow> char \<Rightarrow> bool" where
  "cls_matches (Lit c) x = (ascii_fold x = ascii_fold c)"
| "cls_matches Dot x = ((of_char x :: int) \<notin> {10, 13})"
| "cls_matches Digit x = is_digit x"
| "cls_matches IdChar x = (is_alpha x \<or> is_digit x \<or> x = CHR ''_'' \<or> x = CHR ''-'')"
| "cls_matches NotSlash x = (x \<noteq> CHR ''/'')"

text \<open>
  \<open>greedy p k acc s\<close>: take as many characters satisfying \<open>p\<close> as possible from \<open>s\<close>
  (after those in \<open>acc\<close>), giving back one at a time until the continuation \<open>k\<close> matches.
\<close>

fun greedy :: "(char \<Rightarrow> bool) \<Rightarrow> (string \<Rightarrow> 'a option) \<Rightarrow> string \<Rightarrow> string \<Rightarrow> (string \<times> 'a) option" where
  "greedy p k acc [] = map_option (Pair acc) (k [])"
| "greedy p k acc (x # xs) =
     (if p x
      then (case greedy p k (acc @ [x]) xs of
              Some r \<Rightarrow> Some r
            | None \<Rightarrow> map_option (Pair acc) (k (x # xs)))
      else map_option (Pair acc) (k (x # xs)))"

text \<open>
  \<open>match_here items s\<close>: the items match a prefix of \<open>s\<close>; the result carries the text of
  the capture group, if the sequence has one.
\<close>

fun match_here :: "item list \<Rightarrow> string \<Rightarrow> string option option" where
  "match_here [] s = Some None"
| "match_here (One c # its) s =
     (case s of
        [] \<Rightarrow> None
      | x # xs \<Rightarrow> if cls_matches c x then match_here its xs else None)"
| "match_here (Plus c # its) s =
     (case s of
        [] \<Rightarrow> None
      | x # xs \<Rightarrow>
          if cls_matches c x
          then map_option snd (greedy (cls_matches c) (\<lambda>t. match_here its t) [x] xs)
          else None)"
| "match_here (CapturePlus c # its) s =
     (case s of
        [] \<Rightarrow> None
      | x # xs \<Rightarrow>
          if cls_matches c x
          then map_option (\<lambda>(cap, r). Some cap) (greedy (cls_matches c) (\<lambda>t. match_here its t) [x] xs)
          else None)"

fun match_alternatives :: "regex \<Rightarrow> string \<Rightarrow> string option option" where
  "match_alternatives [] s = None"
| "match_alternatives (a # as) s =
     (case match_here a s of Some r \<Rightarrow> Some r | None \<Rightarrow> match_alternatives as s)"

text \<open>\<open>exec\<close>: the leftmost match.\<close>

fun exec :: "regex \<Rightarrow> string \<Rightarrow> string option option" where
  "exec re [] = match_alternatives re []"
| "exec re (x # xs) =
     (case match_alternatives re (x # xs) of Some r \<Rightarrow> Some r | None \<Rightarrow> exec re xs)"

definition regex_test :: "regex \<Rightarrow> string \<Rightarrow> bool" where
  "regex_test re s = (exec re s \<noteq> None)"

definition lits :: "string \<Rightarrow> item list" where
  "lits w = map (\<lambda>c. One (Lit c)) w"

section \<open>Platform table (constants/platforms.ts)\<close>

datatype SupportedPlatform = Instagram | Twitter | TikTok

fun platform_string :: "SupportedPlatform \<Rightarrow> string" where
  "platform_string Instagram = ''instagram''"
| "platform_string Twitter = ''twitter''"
| "platform_string TikTok = ''tiktok''"

record PatternConfig =
  domain :: regex
  patterns :: "regex list"

definition URL_PATTERNS :: "(SupportedPlatform \<times> PatternConfig) list" where
  "URL_PATTERNS =
     [(Instagram,
       \<lparr>domain = [lits ''instagram.com''],
        patterns = [[lits ''/reel/'' @ [CapturePlus IdChar]],
                    [lits ''/p/'' @ [CapturePlus IdChar]],
                    [lits ''/tv/'' @ [CapturePlus IdChar]]]\<rparr>),
      (Twitter,
       \<lparr>domain = [lits ''x.com'', lits ''twitter.com''],
        patterns = [[lits ''/status/'' @ [CapturePlus Digit]]]\<rparr>),
      (TikTok,
       \<lparr>domain = [lits ''tiktok.com''],
        patterns = [[lits ''/video/'' @ [CapturePlus Digit]],
                    [lits ''/@'' @ [Plus NotSlash] @ lits ''/video/'' @ [CapturePlus Digit]]]\<rparr>)]"

section \<open>Validation and sanitising (lib/validation.ts)\<close>

text \<open>
  The \<open>URL\<close> class belongs to the platform. The functions below take its constructor as
  the argument \<open>new_URL\<close>: \<open>None\<close> when the constructor throws, else the fields the source
  reads. \<open>searchParams\<close> is the list of decoded name-value pairs in order.
\<close>

record URL =
  protocol :: string
  host :: string
  pathname :: string
  searchParams :: "(string \<times> string) list"

type_synonym URL_constructor = "string \<Rightarrow> URL option"

record ValidationSchema =
  isValid :: bool
  errors :: "string list"
  platform :: "SupportedPlatform option"
  contentId :: "string option"

fun detect_loop :: "(SupportedPlatform \<times> PatternConfig) list \<Rightarrow> string \<Rightarrow> SupportedPlatform option" where
  "detect_loop [] normalizedUrl = None"
| "detect_loop ((plat, config) # rest) normalizedUrl =
     (if regex_test (domain config) normalizedUrl then Some plat
      else detect_loop rest normalizedUrl)"

definition detectPlatform :: "string \<Rightarrow> SupportedPlatform option" where
  "detectPlatform url =
     (let normalizedUrl = trim (toLowerCase url) in
      case detect_loop URL_PATTERNS normalizedUrl of
        Some plat \<Rightarrow> Some plat
      | None \<Rightarrow> if includes_str normalizedUrl ''x.com'' then Some Twitter else None)"

text \<open>\<open>match?.[1]\<close> is truthy when the group took part in the match and is not empty.\<close>

fun first_capture :: "regex list \<Rightarrow> string \<Rightarrow> string option" where
  "first_capture [] path = None"
| "first_capture (pattern # rest) path =
     (case exec pattern path of
        Some (Some cap) \<Rightarrow> if cap \<noteq> [] then Some cap else first_capture rest path
      | _ \<Rightarrow> first_capture rest path)"

definition extractContentId :: "URL_constructor \<Rightarrow> string \<Rightarrow> SupportedPlatform \<Rightarrow> string option" where
  "extractContentId new_URL url plat =
     (case new_URL url of
        None \<Rightarrow> None
      | Some urlObj \<Rightarrow>
          (let pats = (case map_of URL_PATTERNS plat of
                         Some config \<Rightarrow> patterns config
                       | None \<Rightarrow> [])
           in first_capture pats (pathname urlObj)))"

definition validate :: "URL_constructor \<Rightarrow> string \<Rightarrow> ValidationSchema" where
  "validate new_URL url =
     (if url = [] then
        \<lparr>isValid = False, errors = [''URL is required''], platform = None, contentId = None\<rparr>
      else
        let trimmedUrl = trim url in
        case new_URL trimmedUrl of
          None \<Rightarrow>
            \<lparr>isValid = False, errors = [''Invalid URL format''], platform = None, contentId = None\<rparr>
        | Some urlObj \<Rightarrow>
            let errors1 = (if protocol urlObj \<notin> set [''http:'', ''https:'']
                           then [''URL must use HTTP or HTTPS protocol''] else [])
            in case detectPlatform trimmedUrl of
                 None \<Rightarrow>
                   \<lparr>isValid = False,
                    errors = errors1 @
                      [''Unsupported platform. Please use Instagram, X (Twitter), or TikTok URL''],
                    platform = None, contentId = None\<rparr>
               | Some p \<Rightarrow>
                   (case extractContentId new_URL trimmedUrl p of
                      None \<Rightarrow>
                        \<lparr>isValid = False,
                         errors = errors1 @
                           [''Could not extract content ID from '' @ platform_string p @ '' URL''],
                         platform = Some p, contentId = None\<rparr>
                    | Some cid \<Rightarrow>
                        \<lparr>isValid = (errors1 = []), errors = errors1,
                         platform = Some p, contentId = Some cid\<rparr>))"

subsection \<open>\<open>sanitize\<close>\<close>

text \<open>
  An exception is a value: its class and its message. The \<open>URL\<close> constructor throws a
  \<open>TypeError\<close> whose message is \<open>Invalid URL\<close>.
\<close>

datatype js_error = Error string | TypeError string

fun message :: "js_error \<Rightarrow> string" where
  "message (Error m) = m"
| "message (TypeError m) = m"

definition dangerousProtocols :: "string list" where
  "dangerousProtocols = [''javascript:'', ''data:'', ''vbscript:'', ''file:'', ''ftp:'']"

definition xssPatterns :: "regex list" where
  "xssPatterns =
     [[lits ''<script''], [lits ''<iframe''], [lits ''<embed''], [lits ''<object''],
      [lits ''onload=''], [lits ''onerror=''], [lits ''onclick=''], [lits ''onmouseover=''],
      [lits ''javascript:''],
      [One Dot # lits ''fromCharCode''], [One Dot # lits ''innerHTML''],
      [One Dot # lits ''outerHTML''],
      [lits ''eval(''], [lits ''expression('']]"

definition dangerousParams :: "string list" where
  "dangerousParams =
     [''callback'', ''jsonp'', ''redirect'', ''return'', ''next'', ''url'', ''dest'',
      ''destination'', ''redirect_uri'', ''redirect_url'', ''return_to'', ''load'', ''src'',
      ''eval'', ''exec'', ''cmd'', ''command'']"

text \<open>
  \<open>URLSearchParams.toString()\<close>: the \<open>application/x-www-form-urlencoded\<close> serialiser
  over the UTF-8 bytes of names and values.
\<close>

definition hex_upper :: "int \<Rightarrow> char" where
  "hex_upper d = (if d < 10 then char_of (48 + d) else char_of (55 + d))"

definition percent_byte :: "int \<Rightarrow> string" where
  "percent_byte b = [CHR ''%'', hex_upper (b div 16), hex_upper (b mod 16)]"

definition utf8_bytes :: "char \<Rightarrow> int list" where
  "utf8_bytes c =
     (let n = (of_char c :: int) in if n < 128 then [n] else [192 + n div 64, 128 + n mod 64])"

definition urlencode_byte :: "int \<Rightarrow> string" where
  "urlencode_byte b =
     (if b = 32 then ''+''
      else if b = 42 \<or> b = 45 \<or> b = 46 \<or> b = 95 \<or> (48 \<le> b \<and> b \<le> 57) \<or>
              (65 \<le> b \<and> b \<le> 90) \<or> (97 \<le> b \<and> b \<le> 122)
      then [char_of b]
      else percent_byte b)"

definition urlencode :: "string \<Rightarrow> string" where
  "urlencode s = concat (map (\<lambda>c. concat (map urlencode_byte (utf8_bytes c))) s)"

definition URLSearchParams_toString :: "(string \<times> string) list \<Rightarrow> string" where
  "URLSearchParams_toString ps = join ''&'' (map (\<lambda>(k, v). urlencode k @ ''='' @ urlencode v) ps)"

text \<open>The three loops of \<open>sanitize\<close>: two that throw at the first hit, one that appends.\<close>

fun protocol_loop :: "string list \<Rightarrow> string \<Rightarrow> js_error option" where
  "protocol_loop [] lowerUrl = None"
| "protocol_loop (p # ps) lowerUrl =
     (if startsWith lowerUrl p then Some (Error ''Dangerous protocol detected'')
      else protocol_loop ps lowerUrl)"

fun xss_loop :: "regex list \<Rightarrow> string \<Rightarrow> js_error option" where
  "xss_loop [] trimmedUrl = None"
| "xss_loop (pattern # rest) trimmedUrl =
     (if regex_test pattern trimmedUrl then Some (Error ''XSS pattern detected'')
      else xss_loop rest trimmedUrl)"

fun params_loop :: "(string \<times> string) list \<Rightarrow> (string \<times> string) list \<Rightarrow> (string \<times> string) list" where
  "params_loop [] safeParams = safeParams"
| "params_loop ((key, val) # rest) safeParams =
     (if toLowerCase key \<notin> set dangerousParams
      then params_loop rest (safeParams @ [(key, val)])
      else params_loop rest safeParams)"

definition sanitize_try :: "URL_constructor \<Rightarrow> string \<Rightarrow> js_error + string" where
  "sanitize_try new_URL url =
     (let trimmedUrl = trim url;
          lowerUrl = toLowerCase trimmedUrl
      in case protocol_loop dangerousProtocols lowerUrl of
           Some e \<Rightarrow> Inl e
         | None \<Rightarrow>
             (case xss_loop xssPatterns trimmedUrl of
                Some e \<Rightarrow> Inl e
              | None \<Rightarrow>
                  (case new_URL trimmedUrl of
                     None \<Rightarrow> Inl (TypeError ''Invalid URL'')
                   | Some urlObj \<Rightarrow>
                       (let safeParams = params_loop (searchParams urlObj) [];
                            safeUrl = protocol urlObj @ ''//'' @ host urlObj @ pathname urlObj;
                            queryString = URLSearchParams_toString safeParams
                        in Inr (if queryString \<noteq> [] then safeUrl @ ''?'' @ queryString
                                else safeUrl)))))"

definition sanitize_catch :: "js_error \<Rightarrow> js_error + string" where
  "sanitize_catch e =
     (if includes_str (message e) ''Dangerous'' \<or> includes_str (message e) ''XSS'' then Inl e
      else Inl (Error ''Invalid URL format''))"

definition sanitize :: "URL_constructor \<Rightarrow> string \<Rightarrow> js_error + string" where
  "sanitize new_URL url =
     (case sanitize_try new_URL url of
        Inl e \<Rightarrow> sanitize_catch e
      | Inr safe \<Rightarrow> Inr safe)"

section \<open>A reference model of the \<open>URL\<close> constructor\<close>

text \<open>
  The parser of the URL Standard without a base URL, as Node.js runs it: a scheme, then
  for the special schemes an authority with a non-empty host, a path whose dot segments
  are resolved, and a query. It covers ASCII host names in their plain form and texts
  within the 256 code units of the model. What it does not implement it refuses
  (\<open>None\<close>): IPv6 literals, percent-escapes, non-ASCII characters and \<open>xn--\<close> labels in a
  host, IPv4 addresses written otherwise than as four decimal numbers, and query escapes
  that do not decode to a code unit of the model. The drive letters of \<open>file\<close> URLs are
  not implemented. The theorems stated for every constructor do not depend on this
  model.
\<close>

definition is_c0_or_space :: "char \<Rightarrow> bool" where
  "is_c0_or_space c = ((of_char c :: int) \<le> 32)"

definition is_tab_or_newline :: "char \<Rightarrow> bool" where
  "is_tab_or_newline c = ((of_char c :: int) \<in> {9, 10, 13})"

definition is_scheme_char :: "char \<Rightarrow> bool" where
  "is_scheme_char c = (is_alpha c \<or> is_digit c \<or> c \<in> set ''+-.'')"

definition is_slash :: "char \<Rightarrow> bool" where
  "is_slash c = (c = CHR ''/'' \<or> c = CHR 0x5C)"

definition special_schemes :: "(string \<times> string) list" where
  "special_schemes =
     [(''http'', ''80''), (''https'', ''443''), (''ws'', ''80''), (''wss'', ''443''),
      (''ftp'', ''21'')]"

definition in_c0_set :: "char \<Rightarrow> bool" where
  "in_c0_set c = ((of_char c :: int) < 32 \<or> (of_char c :: int) > 126)"

definition in_query_set :: "char \<Rightarrow> bool" where
  "in_query_set c = (in_c0_set c \<or> (of_char c :: int) \<in> {32, 34, 35, 60, 62})"

definition in_special_query_set :: "char \<Rightarrow> bool" where
  "in_special_query_set c = (in_query_set c \<or> (of_char c :: int) = 39)"

definition in_path_set :: "char \<Rightarrow> bool" where
  "in_path_set c = (in_query_set c \<or> (of_char c :: int) \<in> {63, 96, 123, 125})"

definition percent_encode :: "(char \<Rightarrow> bool) \<Rightarrow> string \<Rightarrow> string" where
  "percent_encode in_set s =
     concat (map (\<lambda>c. if in_set c then concat (map percent_byte (utf8_bytes c)) else [c]) s)"

definition forbidden_host_char :: "char \<Rightarrow> bool" where
  "forbidden_host_char c =
     ((of_char c :: int) \<in> {0, 9, 10, 13, 32} \<or>
      c \<in> set ''#/:<>?@[]^|'' \<or> c = CHR 0x5C)"

definition forbidden_domain_char :: "char \<Rightarrow> bool" where
  "forbidden_domain_char c = (forbidden_host_char c \<or> in_c0_set c \<or> c = CHR ''%'')"

definition after_last :: "char \<Rightarrow> string \<Rightarrow> string" where
  "after_last c s = rev (takeWhile (\<lambda>x. x \<noteq> c) (rev s))"

definition before_last :: "char \<Rightarrow> string \<Rightarrow> string" where
  "before_last c s = (if c \<in> set s then rev (tl (dropWhile (\<lambda>x. x \<noteq> c) (rev s))) else s)"

fun split_on :: "(char \<Rightarrow> bool) \<Rightarrow> string \<Rightarrow> string list" where
  "split_on p [] = [[]]"
| "split_on p (c # cs) =
     (if p c then [] # split_on p cs
      else case split_on p cs of
             x # xs \<Rightarrow> (c # x) # xs
           | [] \<Rightarrow> [[c]])"

text \<open>
  A host of a special scheme whose last label is a number is an IPv4 address; the model
  takes it in the form that the parser leaves unchanged, four decimal numbers up to 255
  without leading zeros.
\<close>

definition numeric_label :: "string \<Rightarrow> bool" where
  "numeric_label l =
     ((l \<noteq> [] \<and> list_all is_digit l) \<or>
      (case l of
         a # b # r \<Rightarrow> a = CHR ''0'' \<and> (b = CHR ''x'' \<or> b = CHR ''X'') \<and> list_all is_hex_digit r
       | _ \<Rightarrow> False))"

definition ends_in_number :: "string \<Rightarrow> bool" where
  "ends_in_number h =
     (let parts = split_on (\<lambda>c. c = CHR ''.'') h;
          parts1 = (if last parts = [] \<and> butlast parts \<noteq> [] then butlast parts else parts)
      in numeric_label (last parts1))"

definition canonical_octet :: "string \<Rightarrow> bool" where
  "canonical_octet l =
     (l \<noteq> [] \<and> list_all is_digit l \<and> (l = ''0'' \<or> hd l \<noteq> CHR ''0'') \<and> digits_value l \<le> 255)"

definition canonical_ipv4 :: "string \<Rightarrow> bool" where
  "canonical_ipv4 h =
     (case split_on (\<lambda>c. c = CHR ''.'') h of
        [a, b, c, d] \<Rightarrow> canonical_octet a \<and> canonical_octet b \<and> canonical_octet c \<and> canonical_octet d
      | _ \<Rightarrow> False)"

definition has_xn_label :: "string \<Rightarrow> bool" where
  "has_xn_label h = list_ex (\<lambda>l. startsWith l ''xn--'') (split_on (\<lambda>c. c = CHR ''.'') h)"

definition domain_ok :: "string \<Rightarrow> bool" where
  "domain_ok h =
     (h \<noteq> [] \<and> \<not> list_ex forbidden_domain_char h \<and> \<not> has_xn_label h \<and>
      (if ends_in_number h then canonical_ipv4 h else True))"

text \<open>
  The host and port of an authority, as the \<open>host\<close> getter prints them: \<open>None\<close> on a
  host or port that the parser refuses. The default port, if any, is left out.
\<close>

definition parse_port :: "string \<Rightarrow> string option \<Rightarrow> string option" where
  "parse_port port default_port =
     (if port = [] then Some []
      else if \<not> list_all is_digit port then None
      else if digits_value port > 65535 then None
      else if Some (number_to_string (digits_value port)) = default_port then Some []
      else Some ('':'' @ number_to_string (digits_value port)))"

definition parse_authority :: "bool \<Rightarrow> string option \<Rightarrow> string \<Rightarrow> string option" where
  "parse_authority special default_port authority =
     (let hostport = after_last (CHR ''@'') authority;
          has_port = (CHR '':'' \<in> set hostport);
          h = (if has_port then before_last (CHR '':'') hostport else hostport);
          port = (if has_port then after_last (CHR '':'') hostport else [])
      in if special \<and> \<not> domain_ok (map ascii_fold h) then None
         else if \<not> special \<and> list_ex forbidden_host_char h then None
         else if h = [] \<and> (has_port \<or> CHR ''@'' \<in> set authority) then None
         else case parse_port port default_port of
                None \<Rightarrow> None
              | Some pt \<Rightarrow>
                  Some ((if special then map ascii_fold h else percent_encode in_c0_set h) @ pt))"

definition is_single_dot :: "string \<Rightarrow> bool" where
  "is_single_dot seg = (map ascii_fold seg \<in> set [''.'', ''%2e''])"

definition is_double_dot :: "string \<Rightarrow> bool" where
  "is_double_dot seg = (map ascii_fold seg \<in> set [''..'', ''.%2e'', ''%2e.'', ''%2e%2e''])"

fun normalize_segments :: "string list \<Rightarrow> string list \<Rightarrow> string list" where
  "normalize_segments [] acc = acc"
| "normalize_segments (seg # rest) acc =
     (if is_double_dot seg
      then normalize_segments rest (butlast acc @ (if rest = [] then [[]] else []))
      else if is_single_dot seg
      then normalize_segments rest (acc @ (if rest = [] then [[]] else []))
      else normalize_segments rest (acc @ [percent_encode in_path_set seg]))"

definition parse_path :: "(char \<Rightarrow> bool) \<Rightarrow> string \<Rightarrow> string" where
  "parse_path sep path_raw =
     (let segs = (case path_raw of [] \<Rightarrow> [[]] | c # cs \<Rightarrow> split_on sep (if sep c then cs else c # cs))
      in concat (map (\<lambda>seg. ''/'' @ seg) (normalize_segments segs [])))"

text \<open>The \<open>application/x-www-form-urlencoded\<close> parser behind \<open>searchParams\<close>.\<close>

fun percent_decode :: "string \<Rightarrow> string" where
  "percent_decode [] = []"
| "percent_decode (c # cs) =
     (if c = CHR ''%''
      then (case cs of
              h1 # h2 # r \<Rightarrow>
                if is_hex_digit h1 \<and> is_hex_digit h2
                then char_of (16 * hex_value h1 + hex_value h2) # percent_decode r
                else c # percent_decode cs
            | _ \<Rightarrow> c # percent_decode cs)
      else c # percent_decode cs)"

text \<open>
  Two-byte UTF-8 sequences are the code units above \<open>U+007F\<close> of the model; any other
  byte above \<open>0x7F\<close> is refused.
\<close>

fun utf8_decode :: "string \<Rightarrow> string option" where
  "utf8_decode [] = Some []"
| "utf8_decode (b # bs) =
     (let n = (of_char b :: int) in
      if n < 128 then map_option ((#) b) (utf8_decode bs)
      else if n = 194 \<or> n = 195
      then (case bs of
              b2 # r \<Rightarrow>
                if 128 \<le> (of_char b2 :: int) \<and> (of_char b2 :: int) \<le> 191
                then map_option ((#) (char_of ((n - 192) * 64 + ((of_char b2 :: int) - 128))))
                       (utf8_decode r)
                else None
            | [] \<Rightarrow> None)
      else None)"

definition urldecode :: "string \<Rightarrow> string option" where
  "urldecode s = utf8_decode (percent_decode (map (\<lambda>c. if c = CHR ''+'' then CHR '' '' else c) s))"

fun parse_pieces :: "string list \<Rightarrow> (string \<times> string) list option" where
  "parse_pieces [] = Some []"
| "parse_pieces (piece # rest) =
     (if piece = [] then parse_pieces rest
      else case (urldecode (takeWhile (\<lambda>c. c \<noteq> CHR ''='') piece),
                 urldecode (drop 1 (dropWhile (\<lambda>c. c \<noteq> CHR ''='') piece)),
                 parse_pieces rest) of
             (Some k, Some v, Some ps) \<Rightarrow> Some ((k, v) # ps)
           | _ \<Rightarrow> None)"

definition URLSearchParams_parse :: "string \<Rightarrow> (string \<times> string) list option" where
  "URLSearchParams_parse query = parse_pieces (split_on (\<lambda>c. c = CHR ''&'') query)"

definition parse_query :: "(char \<Rightarrow> bool) \<Rightarrow> string \<Rightarrow> (string \<times> string) list option" where
  "parse_query in_set after_path =
     (case after_path of
        [] \<Rightarrow> Some []
      | c # cs \<Rightarrow>
          if c = CHR ''?''
          then URLSearchParams_parse (percent_encode in_set (takeWhile (\<lambda>x. x \<noteq> CHR ''#'') cs))
          else Some [])"

definition build_URL ::
  "string \<Rightarrow> string \<Rightarrow> string \<Rightarrow> (string \<times> string) list option \<Rightarrow> URL option" where
  "build_URL scheme h p q =
     map_option (\<lambda>ps. \<lparr>protocol = scheme @ '':'', host = h, pathname = p, searchParams = ps\<rparr>) q"

definition is_path_end :: "char \<Rightarrow> bool" where
  "is_path_end c = (c = CHR ''?'' \<or> c = CHR ''#'')"

definition parse_special :: "string \<Rightarrow> string \<Rightarrow> string \<Rightarrow> URL option" where
  "parse_special scheme default_port rest =
     (let r1 = dropWhile is_slash rest;
          authority = takeWhile (\<lambda>c. \<not> is_slash c \<and> \<not> is_path_end c) r1;
          after = dropWhile (\<lambda>c. \<not> is_slash c \<and> \<not> is_path_end c) r1
      in case parse_authority True (Some default_port) authority of
           None \<Rightarrow> None
         | Some h \<Rightarrow>
             build_URL scheme h
               (parse_path is_slash (takeWhile (\<lambda>c. \<not> is_path_end c) after))
               (parse_query in_special_query_set (dropWhile (\<lambda>c. \<not> is_path_end c) after)))"

definition parse_file :: "string \<Rightarrow> URL option" where
  "parse_file rest =
     (let has_authority = (case rest of a # b # r \<Rightarrow> is_slash a \<and> is_slash b | _ \<Rightarrow> False);
          r1 = (if has_authority then drop 2 rest else rest);
          authority = (if has_authority
                       then takeWhile (\<lambda>c. \<not> is_slash c \<and> \<not> is_path_end c) r1 else []);
          after = (if has_authority
                   then dropWhile (\<lambda>c. \<not> is_slash c \<and> \<not> is_path_end c) r1 else r1);
          h = map ascii_fold authority
      in if list_ex forbidden_domain_char h then None
         else build_URL ''file'' (if h = ''localhost'' then [] else h)
                (parse_path is_slash (takeWhile (\<lambda>c. \<not> is_path_end c) after))
                (parse_query in_special_query_set (dropWhile (\<lambda>c. \<not> is_path_end c) after)))"

definition parse_nonspecial :: "string \<Rightarrow> string \<Rightarrow> URL option" where
  "parse_nonspecial scheme rest =
     (let path_raw = (\<lambda>t. takeWhile (\<lambda>c. \<not> is_path_end c) t);
          query = (\<lambda>t. parse_query in_query_set (dropWhile (\<lambda>c. \<not> is_path_end c) t));
          is_sep = (\<lambda>c. c = CHR ''/'')
      in if startsWith rest ''//''
         then (let r1 = drop 2 rest;
                   authority = takeWhile (\<lambda>c. \<not> is_sep c \<and> \<not> is_path_end c) r1;
                   after = dropWhile (\<lambda>c. \<not> is_sep c \<and> \<not> is_path_end c) r1
               in case parse_authority False None authority of
                    None \<Rightarrow> None
                  | Some h \<Rightarrow>
                      build_URL scheme h
                        (if path_raw after = [] then [] else parse_path is_sep (path_raw after))
                        (query after))
         else if startsWith rest ''/''
         then build_URL scheme [] (parse_path is_sep (path_raw rest)) (query rest)
         else build_URL scheme [] (percent_encode in_c0_set (path_raw rest)) (query rest))"

text \<open>What follows the scheme and its colon is read according to the kind of scheme.\<close>

definition parse_after_scheme :: "string \<Rightarrow> string \<Rightarrow> URL option" where
  "parse_after_scheme scheme rest =
     (if scheme = ''file'' then parse_file rest
      else case map_of special_schemes scheme of
             Some default_port \<Rightarrow> parse_special scheme default_port rest
           | None \<Rightarrow> parse_nonspecial scheme rest)"

definition URL_parse :: URL_constructor where
  "URL_parse input =
     (let s1 = filter (\<lambda>c. \<not> is_tab_or_newline c)
                 (rev (dropWhile is_c0_or_space (rev (dropWhile is_c0_or_space input))))
      in case s1 of
           [] \<Rightarrow> None
         | c # cs \<Rightarrow>
             if \<not> is_alpha c then None
             else (case dropWhile is_scheme_char s1 of
                     [] \<Rightarrow> None
                   | d # rest \<Rightarrow>
                       if d \<noteq> CHR '':'' then None
                       else parse_after_scheme (map ascii_fold (takeWhile is_scheme_char s1)) rest))"

section \<open>Notions used in the statements\<close>

text \<open>\<open>contains s w\<close>: the text \<open>w\<close> occurs in \<open>s\<close> as a contiguous part.\<close>

definition contains :: "string \<Rightarrow> string \<Rightarrow> bool" where
  "contains s w = (\<exists>pre post. s = pre @ w @ post)"







section \<open>Properties of the rate limiter\<close>

lemma save_fields [simp]:
  "store (fst (save now s)) = store (fst s)"
  "max_rl (fst (save now s)) = max_rl (fst s)"
  "window (fst (save now s)) = window (fst s)"
  "dbPath (fst (save now s)) = dbPath (fst s)"
  by (cases s; simp add: save_def)+

lemma check_absent:
  assumes "map_of (store rl) cid = None" and "cid \<notin> set Object_prototype_keys"
  shows "fst (check now cid (rl, fs)) = \<lparr>allowed = True, resetTime_res = None\<rparr>"
    and "map_of (store (fst (snd (check now cid (rl, fs))))) =
           (map_of (store rl))(cid \<mapsto> \<lparr>count = 1, resetTime = now + window rl\<rparr>)"
    and "max_rl (fst (snd (check now cid (rl, fs)))) = max_rl rl"
    and "window (fst (snd (check now cid (rl, fs)))) = window rl"
  using assms by (simp_all add: check_def get_property_def update_conv')

lemma check_expired:
  assumes "map_of (store rl) cid = Some e" and "resetTime e \<le> now"
    and "cid \<notin> set Object_prototype_keys"
  shows "fst (check now cid (rl, fs)) = \<lparr>allowed = True, resetTime_res = None\<rparr>"
    and "map_of (store (fst (snd (check now cid (rl, fs))))) =
           (map_of (store rl))(cid \<mapsto> \<lparr>count = 1, resetTime = now + window rl\<rparr>)"
    and "max_rl (fst (snd (check now cid (rl, fs)))) = max_rl rl"
    and "window (fst (snd (check now cid (rl, fs)))) = window rl"
  using assms by (simp_all add: check_def get_property_def update_conv' delete_conv')

lemma check_active:
  assumes "map_of (store rl) cid = Some e" "now < resetTime e"
  shows "fst (check now cid (rl, fs)) =
           (if count e \<ge> max_rl rl then \<lparr>allowed = False, resetTime_res = Some (resetTime e)\<rparr>
            else \<lparr>allowed = True, resetTime_res = None\<rparr>)"
    and "map_of (store (fst (snd (check now cid (rl, fs))))) =
           (if count e \<ge> max_rl rl then map_of (store rl)
            else (map_of (store rl))(cid \<mapsto> e\<lparr>count := count e + 1\<rparr>))"
    and "max_rl (fst (snd (check now cid (rl, fs)))) = max_rl rl"
    and "window (fst (snd (check now cid (rl, fs)))) = window rl"
  using assms by (simp_all add: check_def get_property_def update_conv')

text \<open>
  Claim C8. When the client's entry has \<open>count \<ge> max\<close> and its \<open>resetTime\<close> has not
  passed, \<open>check\<close> answers \<open>allowed = false\<close> with the stored \<open>resetTime\<close>, and the call
  changes nothing: the entry, the rest of the limiter and the file are as before.
\<close>

theorem check_rejected_frame:
  assumes "map_of (store rl) cid = Some e" and "count e \<ge> max_rl rl" and "now < resetTime e"
  shows "check now cid (rl, fs) =
           (\<lparr>allowed = False, resetTime_res = Some (resetTime e)\<rparr>, rl, fs)"
  using assms by (simp add: check_def get_property_def)

theorem check_rejected_frame_witness:
  "check 1500 ''a''
     ((RateLimiter_init ''db'' 1000 2)\<lparr>store := [(''a'', \<lparr>count = 2, resetTime = 2000\<rparr>)]\<rparr>,
      Map.empty) =
   (\<lparr>allowed = False, resetTime_res = Some 2000\<rparr>,
    (RateLimiter_init ''db'' 1000 2)\<lparr>store := [(''a'', \<lparr>count = 2, resetTime = 2000\<rparr>)]\<rparr>,
    Map.empty)"
  using check_rejected_frame
    [of "(RateLimiter_init ''db'' 1000 2)\<lparr>store := [(''a'', \<lparr>count = 2, resetTime = 2000\<rparr>)]\<rparr>"
        "''a''" "\<lparr>count = 2, resetTime = 2000\<rparr>" 1500 Map.empty]
  by (simp add: RateLimiter_init_def)

lemma count_after_step:
  assumes "0 \<le> n"
  shows "count_after m (if m \<le> c then c else c + 1) n = count_after m c (1 + n)"
  using assms by (auto simp: count_after_def min_def)

lemma check_seq_active:
  assumes "map_of (store rl) cid = Some e" and "\<forall>t\<in>set ts. t < resetTime e"
    and "check_seq ts cid (rl, fs) = (rs, rl', fs')"
  shows "rs = map (\<lambda>i. count e + int i < max_rl rl) [0..<length ts] \<and>
         map_of (store rl') cid =
           Some (e\<lparr>count := count_after (max_rl rl) (count e) (int (length ts))\<rparr>) \<and>
         max_rl rl' = max_rl rl \<and> window rl' = window rl"
  using assms
proof (induction ts arbitrary: rl fs e rs)
  case Nil
  then show ?case by (simp add: count_after_def)
next
  case (Cons t ts)
  obtain r rl1 fs1 where c: "check t cid (rl, fs) = (r, rl1, fs1)"
    by (cases "check t cid (rl, fs)") auto
  obtain rs1 where s: "check_seq ts cid (rl1, fs1) = (rs1, rl', fs')" and rs: "rs = allowed r # rs1"
    using Cons.prems(3) c by (auto split: prod.splits)
  have t: "t < resetTime e" using Cons.prems(2) by simp
  define e1 where "e1 = (if count e \<ge> max_rl rl then e else e\<lparr>count := count e + 1\<rparr>)"
  have r: "allowed r = (count e < max_rl rl)"
    using check_active(1)[OF Cons.prems(1) t, of fs] c by auto
  have st: "map_of (store rl1) cid = Some e1"
    using check_active(2)[OF Cons.prems(1) t, of fs] c Cons.prems(1) by (auto simp: e1_def)
  have m: "max_rl rl1 = max_rl rl" "window rl1 = window rl"
    using check_active(3,4)[OF Cons.prems(1) t, of fs] c by auto
  have rt: "resetTime e1 = resetTime e" by (simp add: e1_def)
  have ih: "rs1 = map (\<lambda>i. count e1 + int i < max_rl rl1) [0..<length ts] \<and>
         map_of (store rl') cid =
           Some (e1\<lparr>count := count_after (max_rl rl1) (count e1) (int (length ts))\<rparr>) \<and>
         max_rl rl' = max_rl rl1 \<and> window rl' = window rl1"
    using Cons.IH[OF st _ s] Cons.prems(2) rt by simp
  have up: "[0..<length (t # ts)] = 0 # map Suc [0..<length ts]"
    by (simp add: upt_conv_Cons map_Suc_upt del: upt_Suc)
  have c1: "count e1 = (if max_rl rl \<le> count e then count e else count e + 1)"
    by (simp add: e1_def)
  have cnt: "count_after (max_rl rl) (count e1) (int (length ts))
      = count_after (max_rl rl) (count e) (int (length (t # ts)))"
    unfolding c1 using count_after_step[of "int (length ts)" "max_rl rl" "count e"] by simp
  have rec: "e1\<lparr>count := x\<rparr> = e\<lparr>count := x\<rparr>" for x by (simp add: e1_def)
  have res: "map (\<lambda>i. count e1 + int i < max_rl rl) [0..<length ts]
      = map (\<lambda>i. count e + int (Suc i) < max_rl rl) [0..<length ts]"
    by (auto simp: e1_def)
  have "rs = map (\<lambda>i. count e + int i < max_rl rl) [0..<length (t # ts)]"
    unfolding up using ih r rs m res by (simp add: comp_def)
  moreover have "map_of (store rl') cid =
           Some (e\<lparr>count := count_after (max_rl rl) (count e) (int (length (t # ts)))\<rparr>)"
    using ih m cnt rec by simp
  ultimately show ?case using ih m by simp
qed

text \<open>
  Claim C2, as amended: for a limiter whose \<open>max\<close> is at least 1 and a client without an
  entry whose identifier is not the name of a property of \<open>Object.prototype\<close>, the calls
  at \<open>t0\<close> and then at any times before \<open>t0 + window\<close> are answered \<open>allowed\<close> exactly while their number does not exceed \<open>max\<close> (call \<open>i + 1\<close> is allowed
  iff \<open>i < max\<close>, so call \<open>max + 1\<close> is refused); the stored count is the number of calls
  capped at \<open>max\<close>, with \<open>resetTime = t0 + window\<close>; and a call at or after that
  \<open>resetTime\<close> is allowed and starts a new window with count 1.
\<close>

theorem fresh_client_window:
  assumes fresh: "map_of (store rl) cid = None"
    and own: "cid \<notin> set Object_prototype_keys"
    and max1: "1 \<le> max_rl rl"
    and inwin: "\<forall>t\<in>set ts. t < t0 + window rl"
    and run: "check_seq (t0 # ts) cid (rl, fs) = (rs, rl', fs')"
  shows "length rs = Suc (length ts) \<and>
         (\<forall>i < length rs. rs ! i = (int i < max_rl rl)) \<and>
         map_of (store rl') cid =
           Some \<lparr>count = min (1 + int (length ts)) (max_rl rl), resetTime = t0 + window rl\<rparr> \<and>
         (\<forall>t'. t0 + window rl \<le> t' \<longrightarrow>
            fst (check t' cid (rl', fs')) = \<lparr>allowed = True, resetTime_res = None\<rparr> \<and>
            map_of (store (fst (snd (check t' cid (rl', fs'))))) cid =
              Some \<lparr>count = 1, resetTime = t' + window rl\<rparr>)"
proof -
  obtain r rl1 fs1 where c: "check t0 cid (rl, fs) = (r, rl1, fs1)"
    by (cases "check t0 cid (rl, fs)") auto
  obtain rs1 where s: "check_seq ts cid (rl1, fs1) = (rs1, rl', fs')" and rs: "rs = allowed r # rs1"
    using run c by (auto split: prod.splits)
  define e where "e = \<lparr>count = 1, resetTime = t0 + window rl\<rparr>"
  have r: "allowed r" using check_absent(1)[OF fresh own, of t0 fs] c by auto
  have st: "map_of (store rl1) cid = Some e"
    using check_absent(2)[OF fresh own, of t0 fs] c by (simp add: e_def)
  have m: "max_rl rl1 = max_rl rl" "window rl1 = window rl"
    using check_absent(3,4)[OF fresh own, of t0 fs] c by auto
  have inw: "\<forall>t\<in>set ts. t < resetTime e" using inwin by (simp add: e_def)
  note seq = check_seq_active[OF st inw s]
  have rs1: "rs1 = map (\<lambda>i. 1 + int i < max_rl rl) [0..<length ts]"
    using seq m by (simp add: e_def)
  have len: "length rs = Suc (length ts)" using rs rs1 by simp
  have nth: "rs ! i = (int i < max_rl rl)" if "i < length rs" for i
  proof (cases i)
    case 0
    then show ?thesis using rs r max1 by simp
  next
    case (Suc j)
    then have "j < length ts" using that len by simp
    then show ?thesis using Suc rs rs1 by simp
  qed
  have "count_after (max_rl rl) 1 (int (length ts)) = min (1 + int (length ts)) (max_rl rl)"
    using max1 by (auto simp: count_after_def min_def)
  then have fin: "map_of (store rl') cid =
      Some \<lparr>count = min (1 + int (length ts)) (max_rl rl), resetTime = t0 + window rl\<rparr>"
    using seq m by (simp add: e_def)
  have w: "window rl' = window rl" using seq m by simp
  have nxt: "fst (check t' cid (rl', fs')) = \<lparr>allowed = True, resetTime_res = None\<rparr> \<and>
            map_of (store (fst (snd (check t' cid (rl', fs'))))) cid =
              Some \<lparr>count = 1, resetTime = t' + window rl\<rparr>" if "t0 + window rl \<le> t'" for t'
    using check_expired(1,2)[OF fin _ own, of t' fs'] that w by simp
  show ?thesis using len nth fin nxt by blast
qed

theorem fresh_client_window_witness:
  "check_seq [0, 10, 20] ''a'' (RateLimiter_init ''db'' 1000 2, Map.empty) =
     ([True, True, False],
      (RateLimiter_init ''db'' 1000 2)\<lparr>store := [(''a'', \<lparr>count = 2, resetTime = 1000\<rparr>)]\<rparr>, Map.empty)
   \<and> fst (check 1000 ''a''
        ((RateLimiter_init ''db'' 1000 2)\<lparr>store := [(''a'', \<lparr>count = 2, resetTime = 1000\<rparr>)]\<rparr>, Map.empty))
      = \<lparr>allowed = True, resetTime_res = None\<rparr>"
proof -
  have run: "check_seq [0, 10, 20] ''a'' (RateLimiter_init ''db'' 1000 2, Map.empty) =
     ([True, True, False],
      (RateLimiter_init ''db'' 1000 2)\<lparr>store := [(''a'', \<lparr>count = 2, resetTime = 1000\<rparr>)]\<rparr>, Map.empty)"
    by (simp add: check_def get_property_def Object_prototype_keys_def save_def
        RateLimiter_init_def)
  show ?thesis
    using fresh_client_window[of "RateLimiter_init ''db'' 1000 2" "''a''" "[10, 20]" 0 Map.empty,
        OF _ _ _ _ run] run
    by (simp add: RateLimiter_init_def Object_prototype_keys_def)
qed

text \<open>
  Claim C2 as stated fails in two ways. For \<open>max = 0\<close> the first call, which is call
  \<open>max + 1\<close>, is allowed, and the stored count 1 exceeds the maximum. For the client
  identifier \<open>constructor\<close>, which no entry has been created for, every call is allowed,
  also the second with \<open>max = 1\<close>.
\<close>

theorem fresh_client_limit_fails:
  "check_seq [0] ''a'' (RateLimiter_init ''db'' 1000 0, Map.empty) =
     ([True],
      (RateLimiter_init ''db'' 1000 0)\<lparr>store := [(''a'', \<lparr>count = 1, resetTime = 1000\<rparr>)]\<rparr>,
      Map.empty) \<and>
   max_rl (RateLimiter_init ''db'' 1000 0) < 1 \<and>
   check_seq [0, 1, 2] ''constructor'' (RateLimiter_init ''db'' 1000 1, Map.empty) =
     ([True, True, True], RateLimiter_init ''db'' 1000 1, Map.empty)"
  by (simp add: check_def get_property_def Object_prototype_keys_def save_def
      RateLimiter_init_def)

subsection \<open>Loading at construction\<close>

lemma parse_promise_text: "JSON_parse ''[object Promise]'' = Inl SyntaxError"
  by code_simp

lemma load_store: "store (load fs rl) = (if existsSync fs (dbPath rl) then [] else store rl)"
  by (simp add: load_def parse_promise_text Promise_toString_def)

lemma new_RateLimiter_store: "store (new_RateLimiter fs path w m) = []"
  by (simp add: new_RateLimiter_def load_store RateLimiter_init_def)

lemma stringify_c1:
  "JSON_stringify [(''c1'', \<lparr>count = 2, resetTime = 66000\<rparr>)] =
     ''{\"c1\":{\"count\":2,\"resetTime\":66000}}''"
  by code_simp

lemma parse_c1:
  "JSON_parse ''{\"c1\":{\"count\":2,\"resetTime\":66000}}'' =
     Inr (JObject [(''c1'', JObject [(''count'', JNumber ''2''), (''resetTime'', JNumber ''66000'')])])"
  by code_simp

lemma store_of_c1:
  "store_of_json (JObject [(''c1'', JObject [(''count'', JNumber ''2''), (''resetTime'', JNumber ''66000'')])])
     = [(''c1'', \<lparr>count = 2, resetTime = 66000\<rparr>)]"
  by code_simp

lemma before_restart_eq:
  "before_restart =
     (\<lparr>dbPath = ''db'', window = 60000, max_rl = 2,
       store = [(''c1'', \<lparr>count = 2, resetTime = 66000\<rparr>)], lastSave = 12000, saveDebounce = 5000\<rparr>,
      Map.empty(''db'' \<mapsto> ''{\"c1\":{\"count\":2,\"resetTime\":66000}}''))"
  unfolding before_restart_def close_def
  by (simp add: new_RateLimiter_def load_def existsSync_def RateLimiter_init_def check_def
      get_property_def Object_prototype_keys_def save_def stringify_c1)
   

text \<open>
  Claim C1 at a concrete restart. The file written at \<open>close\<close> holds the entry of \<open>c1\<close>
  with count 2 and a \<open>resetTime\<close> still ahead; the old limiter refuses \<open>c1\<close> at time 13000;
  the limiter constructed over that file has an empty store and allows the same call.
\<close>

theorem restart_forgets_counts:
  "snd before_restart ''db'' = Some ''{\"c1\":{\"count\":2,\"resetTime\":66000}}'' \<and>
   store (fst before_restart) = [(''c1'', \<lparr>count = 2, resetTime = 66000\<rparr>)] \<and>
   fst (check 13000 ''c1'' before_restart) = \<lparr>allowed = False, resetTime_res = Some 66000\<rparr> \<and>
   store (fst after_restart) = [] \<and>
   fst (check 13000 ''c1'' after_restart) = \<lparr>allowed = True, resetTime_res = None\<rparr>"
  by (simp add: after_restart_def new_RateLimiter_store before_restart_eq check_def
      get_property_def Object_prototype_keys_def Let_def)

subsection \<open>The fallback against the persistent limiter\<close>

lemma fallback_agrees_off_boundary:
  assumes "cid \<notin> set Object_prototype_keys"
    and "map_of m cid = map_of (store rl) cid"
    and "rateLimitMax cfg = max_rl rl" and "rateLimitWindow cfg = window rl"
    and "\<forall>e. map_of m cid = Some e \<longrightarrow> now \<noteq> resetTime e"
  shows "fst (checkRateLimitFallback cfg now cid m) = fst (check now cid (rl, fs)) \<and>
         map_of (snd (checkRateLimitFallback cfg now cid m)) cid =
           map_of (store (fst (snd (check now cid (rl, fs))))) cid"
proof (cases "map_of (store rl) cid")
  case None
  then show ?thesis using assms
    by (simp add: checkRateLimitFallback_def check_absent update_conv')
next
  case (Some e)
  then have ne: "now \<noteq> resetTime e" using assms by simp
  show ?thesis
  proof (cases "now < resetTime e")
    case True
    then show ?thesis using Some assms
      by (simp add: checkRateLimitFallback_def check_active update_conv')
  next
    case False
    then have "resetTime e \<le> now" "resetTime e < now" using ne by auto
    then show ?thesis using Some assms
      by (simp add: checkRateLimitFallback_def check_expired update_conv')
  qed
qed

text \<open>
  Claim C3 at the boundary \<open>now = resetTime\<close>, with \<open>max = 1\<close> and a window of 1000: after
  a first call at time 0, the call at time 1000 is allowed by \<open>check\<close> (the entry has
  expired, \<open>now \<ge> resetTime\<close>) and refused by the fallback (it tests \<open>now > resetTime\<close>).
\<close>

theorem fallback_differs_at_resetTime:
  "fst (check_seq [0, 1000] ''a'' (RateLimiter_init ''db'' 1000 1, Map.empty)) = [True, True] \<and>
   fst (fallback_seq \<lparr>rateLimitMax = 1, rateLimitWindow = 1000\<rparr> [0, 1000] ''a'' []) = [True, False]"
  by (simp add: check_def get_property_def Object_prototype_keys_def save_def
      RateLimiter_init_def checkRateLimitFallback_def)

section \<open>Properties of validation and sanitising\<close>

subsection \<open>Substrings and literal patterns\<close>

lemma startsWith_iff: "startsWith s w \<longleftrightarrow> (\<exists>post. s = w @ post)"
  by (induction s w rule: startsWith.induct) auto

lemma includes_str_iff: "includes_str s w \<longleftrightarrow> contains s w"
proof (induction s)
  case Nil
  show ?case by (auto simp: contains_def startsWith_iff)
next
  case (Cons c cs)
  have "contains (c # cs) w \<longleftrightarrow> (\<exists>post. c # cs = w @ post) \<or> contains cs w"
  proof
    assume "contains (c # cs) w"
    then obtain pre post where e: "c # cs = pre @ w @ post" by (auto simp: contains_def)
    show "(\<exists>post. c # cs = w @ post) \<or> contains cs w"
    proof (cases pre)
      case Nil
      then show ?thesis using e by auto
    next
      case (Cons a pre')
      then have "cs = pre' @ w @ post" using e by simp
      then show ?thesis by (auto simp: contains_def)
    qed
  next
    assume "(\<exists>post. c # cs = w @ post) \<or> contains cs w"
    then show "contains (c # cs) w"
    proof
      assume "\<exists>post. c # cs = w @ post"
      then obtain post where "c # cs = [] @ w @ post" by auto
      then show ?thesis unfolding contains_def by blast
    next
      assume "contains cs w"
      then obtain pre post where "cs = pre @ w @ post" by (auto simp: contains_def)
      then have "c # cs = (c # pre) @ w @ post" by simp
      then show ?thesis unfolding contains_def by blast
    qed
  qed
  then show ?case using Cons by (simp add: startsWith_iff)
qed

lemma match_here_lits:
  "match_here (lits w) s = (if startsWith (map ascii_fold s) (map ascii_fold w) then Some None else None)"
proof (induction w arbitrary: s)
  case Nil
  show ?case by (simp add: lits_def)
next
  case (Cons c w)
  have l: "lits (c # w) = One (Lit c) # lits w" by (simp add: lits_def)
  show ?case using Cons by (cases s) (auto simp: l)
qed

lemma exec_lits1:
  "exec [lits w] s = (if includes_str (map ascii_fold s) (map ascii_fold w) then Some None else None)"
  by (induction s) (auto simp: match_here_lits)

lemma exec_lits2:
  "exec [lits w1, lits w2] s =
     (if includes_str (map ascii_fold s) (map ascii_fold w1) \<or>
         includes_str (map ascii_fold s) (map ascii_fold w2) then Some None else None)"
  by (induction s) (auto simp: match_here_lits)

lemma regex_test_lits1:
  "regex_test [lits w] s = contains (map ascii_fold s) (map ascii_fold w)"
  by (simp add: regex_test_def exec_lits1 includes_str_iff)

lemma regex_test_lits2:
  "regex_test [lits w1, lits w2] s =
     (contains (map ascii_fold s) (map ascii_fold w1) \<or> contains (map ascii_fold s) (map ascii_fold w2))"
  by (simp add: regex_test_def exec_lits2 includes_str_iff)

lemma of_char_toLowerCase_char:
  "\<not> (65 \<le> (of_char (toLowerCase_char c) :: int) \<and> (of_char (toLowerCase_char c) :: int) \<le> 90)"
proof -
  have r: "0 \<le> (of_char c :: int)" "(of_char c :: int) < 256"
    by (simp_all add: of_char_def)
  show ?thesis using r by (auto simp: toLowerCase_char_def Let_def of_char_of)
qed

lemma ascii_fold_toLowerCase_char: "ascii_fold (toLowerCase_char c) = toLowerCase_char c"
  using of_char_toLowerCase_char[of c] by (auto simp: ascii_fold_def Let_def)

lemma set_trim: "set (trim s) \<subseteq> set s"
proof -
  have "set (dropWhile is_white_space (rev (dropWhile is_white_space s))) \<subseteq> set (rev (dropWhile is_white_space s))"
    by (rule set_dropWhileD[THEN subsetI])
  also have "\<dots> \<subseteq> set s" using set_dropWhileD by fastforce
  finally show ?thesis by (simp add: trim_def)
qed

lemma fold_normalized: "map ascii_fold (trim (toLowerCase url)) = trim (toLowerCase url)"
proof (rule map_idI)
  fix x assume "x \<in> set (trim (toLowerCase url))"
  then have "x \<in> set (toLowerCase url)" using set_trim by blast
  then show "ascii_fold x = x" by (auto simp: toLowerCase_def ascii_fold_toLowerCase_char)
qed

lemma detect_loop_URL_PATTERNS:
  "detect_loop URL_PATTERNS n =
     (if contains (map ascii_fold n) ''instagram.com'' then Some Instagram
      else if contains (map ascii_fold n) ''x.com'' \<or> contains (map ascii_fold n) ''twitter.com''
      then Some Twitter
      else if contains (map ascii_fold n) ''tiktok.com'' then Some TikTok
      else None)"
  by (simp add: URL_PATTERNS_def regex_test_lits1 regex_test_lits2 ascii_fold_def)

text \<open>
  Claim C10. Platform detection looks at the whole text of the URL, lowercased and
  trimmed, not at its host: the result is instagram when that text contains
  \<open>instagram.com\<close> anywhere, else twitter when it contains \<open>x.com\<close> or \<open>twitter.com\<close>, else
  tiktok when it contains \<open>tiktok.com\<close>, else nothing. A youtube.com URL that carries
  \<open>tiktok.com\<close> in its query is classified as tiktok.
\<close>

theorem detectPlatform_substring:
  "detectPlatform url =
     (if contains (trim (toLowerCase url)) ''instagram.com'' then Some Instagram
      else if contains (trim (toLowerCase url)) ''x.com'' \<or>
              contains (trim (toLowerCase url)) ''twitter.com'' then Some Twitter
      else if contains (trim (toLowerCase url)) ''tiktok.com'' then Some TikTok
      else None) \<and>
   detectPlatform ''https://www.youtube.com/watch?v=tiktok.com'' = Some TikTok"
proof -
  have "detectPlatform ''https://www.youtube.com/watch?v=tiktok.com'' = Some TikTok"
    by code_simp
  then show ?thesis
    by (simp add: detectPlatform_def Let_def detect_loop_URL_PATTERNS fold_normalized
        includes_str_iff del: detect_loop.simps)
qed

lemma trim_part: "\<exists>pre post. s = pre @ trim s @ post"
proof -
  define d where "d = dropWhile is_white_space s"
  have 1: "s = takeWhile is_white_space s @ d" by (simp add: d_def)
  have "d = rev (dropWhile is_white_space (rev d)) @ rev (takeWhile is_white_space (rev d))"
    by (metis rev_append rev_rev_ident takeWhile_dropWhile_id)
  then have 2: "d = trim s @ rev (takeWhile is_white_space (rev d))"
    by (simp add: trim_def d_def)
  show ?thesis using 1 2 by metis
qed

lemma contains_trans: "contains t w \<Longrightarrow> s = pre @ t @ post \<Longrightarrow> contains s w"
  unfolding contains_def by (metis append.assoc)

lemma contains_trim: "contains (trim s) w \<Longrightarrow> contains s w"
  using trim_part[of s] contains_trans by blast

lemma contains_toLowerCase_trim:
  "contains (trim (toLowerCase (trim url))) w \<Longrightarrow> contains (toLowerCase url) w"
proof -
  assume a: "contains (trim (toLowerCase (trim url))) w"
  obtain pre post where "url = pre @ trim url @ post" using trim_part by blast
  then have "toLowerCase url = toLowerCase pre @ toLowerCase (trim url) @ toLowerCase post"
    by (metis map_append toLowerCase_def)
  then show ?thesis using contains_trim[OF a] contains_trans by blast
qed

text \<open>
  In particular, a text that contains \<open>instagram.com\<close> as it stands is classified as
  instagram, wherever the name occurs.
\<close>

lemma dropWhile_keeps:
  assumes "w \<noteq> []" and "\<not> P (hd w)"
  shows "\<exists>pre'. dropWhile P (pre @ w @ post) = pre' @ w @ post"
proof (cases "\<forall>x\<in>set pre. P x")
  case True
  then have "dropWhile P (pre @ w @ post) = dropWhile P (w @ post)"
    by (simp add: dropWhile_append)
  also have "\<dots> = w @ post" using assms by (cases w) auto
  finally show ?thesis by (metis append_Nil)
next
  case False
  then have "dropWhile P (pre @ w @ post) = dropWhile P pre @ w @ post"
    by (auto simp: dropWhile_append)
  then show ?thesis by blast
qed

lemma contains_into_trim:
  assumes "contains s w" and "w \<noteq> []"
    and "\<not> is_white_space (hd w)" and "\<not> is_white_space (last w)"
  shows "contains (trim s) w"
proof -
  obtain pre post where s: "s = pre @ w @ post" using assms(1) by (auto simp: contains_def)
  obtain pre' where 1: "dropWhile is_white_space s = pre' @ w @ post"
    using dropWhile_keeps[where P = is_white_space and w = w and pre = pre and post = post,
        OF assms(2,3)] s by blast
  have r: "rev (pre' @ w @ post) = rev post @ rev w @ rev pre'" by simp
  have "rev w \<noteq> []" "\<not> is_white_space (hd (rev w))"
    using assms(2,4) by (simp_all add: hd_rev)
  then obtain post' where 2: "dropWhile is_white_space (rev post @ rev w @ rev pre') = post' @ rev w @ rev pre'"
    using dropWhile_keeps[where P = is_white_space and w = "rev w" and pre = "rev post"
        and post = "rev pre'"] by blast
  have "trim s = rev (post' @ rev w @ rev pre')"
    using 1 2 r by (simp add: trim_def)
  then have "trim s = pre' @ w @ rev post'" by simp
  then show ?thesis unfolding contains_def by blast
qed

lemma contains_toLowerCase:
  assumes "contains s w" and "toLowerCase w = w"
  shows "contains (toLowerCase s) w"
proof -
  obtain pre post where "s = pre @ w @ post" using assms(1) by (auto simp: contains_def)
  then have "toLowerCase s = toLowerCase pre @ w @ toLowerCase post"
    using assms(2) by (simp add: toLowerCase_def)
  then show ?thesis unfolding contains_def by blast
qed

lemma domain_names_plain:
  "toLowerCase ''instagram.com'' = ''instagram.com''"
  "toLowerCase ''x.com'' = ''x.com''"
  "toLowerCase ''twitter.com'' = ''twitter.com''"
  "toLowerCase ''tiktok.com'' = ''tiktok.com''"
  "\<not> is_white_space (CHR ''i'')" "\<not> is_white_space (CHR ''x'')"
  "\<not> is_white_space (CHR ''t'')" "\<not> is_white_space (CHR ''m'')"
  by code_simp+

lemma detectPlatform_instagram_anywhere:
  assumes "contains url ''instagram.com''"
  shows "detectPlatform url = Some Instagram"
proof -
  have "contains (trim (toLowerCase url)) ''instagram.com''"
    using contains_into_trim[OF contains_toLowerCase[OF assms domain_names_plain(1)]]
      domain_names_plain by simp
  then show ?thesis
    by (simp add: detectPlatform_def Let_def detect_loop_URL_PATTERNS fold_normalized
        del: detect_loop.simps)
qed

lemma detectPlatform_None:
  assumes "\<not> contains (toLowerCase url) ''instagram.com''"
    and "\<not> contains (toLowerCase url) ''x.com''"
    and "\<not> contains (toLowerCase url) ''twitter.com''"
    and "\<not> contains (toLowerCase url) ''tiktok.com''"
  shows "detectPlatform (trim url) = None"
  using assms contains_toLowerCase_trim[of url]
  by (auto simp: detectPlatform_def Let_def detect_loop_URL_PATTERNS fold_normalized
      includes_str_iff simp del: detect_loop.simps)

text \<open>
  Claim C7, as amended: for every non-empty input that the constructor accepts and whose
  lowercased text contains none of \<open>instagram.com\<close>, \<open>x.com\<close>, \<open>twitter.com\<close>, \<open>tiktok.com\<close>,
  \<open>validate\<close> answers \<open>isValid = false\<close>, with the unsupported-platform message as the last
  error (after the protocol error, if the scheme is not http or https) and neither
  platform nor content id.
\<close>

theorem validate_unsupported:
  assumes "url \<noteq> []" and "new_URL (trim url) = Some u"
    and "\<not> contains (toLowerCase url) ''instagram.com''"
    and "\<not> contains (toLowerCase url) ''x.com''"
    and "\<not> contains (toLowerCase url) ''twitter.com''"
    and "\<not> contains (toLowerCase url) ''tiktok.com''"
  shows "validate new_URL url =
           \<lparr>isValid = False,
            errors = (if protocol u \<notin> set [''http:'', ''https:'']
                      then [''URL must use HTTP or HTTPS protocol''] else []) @
                     [''Unsupported platform. Please use Instagram, X (Twitter), or TikTok URL''],
            platform = None, contentId = None\<rparr>"
  using assms(1,2) detectPlatform_None[OF assms(3-6)]
  by (simp add: validate_def Let_def)

lemma youtube_parse:
  "URL_parse ''https://www.youtube.com/watch?v=123'' =
     Some \<lparr>protocol = ''https:'', host = ''www.youtube.com'', pathname = ''/watch'',
           searchParams = [(''v'', ''123'')]\<rparr>"
  by code_simp

lemma youtube_no_domain:
  "\<not> includes_str (toLowerCase ''https://www.youtube.com/watch?v=123'') ''instagram.com''"
  "\<not> includes_str (toLowerCase ''https://www.youtube.com/watch?v=123'') ''x.com''"
  "\<not> includes_str (toLowerCase ''https://www.youtube.com/watch?v=123'') ''twitter.com''"
  "\<not> includes_str (toLowerCase ''https://www.youtube.com/watch?v=123'') ''tiktok.com''"
  by code_simp+

lemma youtube_trim: "trim ''https://www.youtube.com/watch?v=123'' = ''https://www.youtube.com/watch?v=123''"
  by code_simp

theorem validate_unsupported_witness:
  "validate URL_parse ''https://www.youtube.com/watch?v=123'' =
     \<lparr>isValid = False,
      errors = [''Unsupported platform. Please use Instagram, X (Twitter), or TikTok URL''],
      platform = None, contentId = None\<rparr>"
  using validate_unsupported[of "''https://www.youtube.com/watch?v=123''" URL_parse, OF _ _
      youtube_no_domain[unfolded includes_str_iff]] youtube_parse youtube_trim
  by simp

text \<open>
  Claim C7 as stated fails: the host of this URL is \<open>www.youtube.com\<close>, outside the
  supported set, and \<open>validate\<close> accepts it as a tiktok URL.
\<close>

theorem validate_foreign_host_detected:
  "URL_parse ''https://www.youtube.com/video/123?ref=tiktok.com'' =
     Some \<lparr>protocol = ''https:'', host = ''www.youtube.com'', pathname = ''/video/123'',
           searchParams = [(''ref'', ''tiktok.com'')]\<rparr> \<and>
   validate URL_parse ''https://www.youtube.com/video/123?ref=tiktok.com'' =
     \<lparr>isValid = True, errors = [], platform = Some TikTok, contentId = Some ''123''\<rparr>"
  by code_simp

text \<open>
  Claim C9. If the constructor accepts the trimmed input and its scheme is neither http
  nor https, the protocol error is recorded and validation goes on: with a platform
  detected and a content id extracted, the outcome has \<open>isValid = false\<close>, the protocol
  error alone, and both platform and content id; the later failures append their
  message to the same list.
\<close>

theorem validate_non_http:
  assumes "url \<noteq> []" and "new_URL (trim url) = Some u"
    and "protocol u \<notin> set [''http:'', ''https:'']"
  shows "(\<forall>p cid. detectPlatform (trim url) = Some p \<and>
                   extractContentId new_URL (trim url) p = Some cid \<longrightarrow>
            validate new_URL url =
              \<lparr>isValid = False, errors = [''URL must use HTTP or HTTPS protocol''],
               platform = Some p, contentId = Some cid\<rparr>) \<and>
         (\<forall>p. detectPlatform (trim url) = Some p \<and>
               extractContentId new_URL (trim url) p = None \<longrightarrow>
            validate new_URL url =
              \<lparr>isValid = False,
               errors = [''URL must use HTTP or HTTPS protocol'',
                         ''Could not extract content ID from '' @ platform_string p @ '' URL''],
               platform = Some p, contentId = None\<rparr>) \<and>
         (detectPlatform (trim url) = None \<longrightarrow>
            validate new_URL url =
              \<lparr>isValid = False,
               errors = [''URL must use HTTP or HTTPS protocol'',
                         ''Unsupported platform. Please use Instagram, X (Twitter), or TikTok URL''],
               platform = None, contentId = None\<rparr>)"
  using assms by (simp add: validate_def Let_def)

lemma ftp_instagram_facts:
  "trim ''ftp://instagram.com/p/ABC123'' = ''ftp://instagram.com/p/ABC123''"
  "URL_parse ''ftp://instagram.com/p/ABC123'' =
     Some \<lparr>protocol = ''ftp:'', host = ''instagram.com'', pathname = ''/p/ABC123'',
           searchParams = []\<rparr>"
  "detectPlatform ''ftp://instagram.com/p/ABC123'' = Some Instagram"
  "extractContentId URL_parse ''ftp://instagram.com/p/ABC123'' Instagram = Some ''ABC123''"
  by code_simp+

theorem validate_non_http_witness:
  "validate URL_parse ''ftp://instagram.com/p/ABC123'' =
     \<lparr>isValid = False, errors = [''URL must use HTTP or HTTPS protocol''],
      platform = Some Instagram, contentId = Some ''ABC123''\<rparr>"
  using validate_non_http[of "''ftp://instagram.com/p/ABC123''" URL_parse
      "\<lparr>protocol = ''ftp:'', host = ''instagram.com'', pathname = ''/p/ABC123'', searchParams = []\<rparr>"]
    ftp_instagram_facts
  by simp

subsection \<open>\<open>sanitize\<close>\<close>

lemma protocol_loop_eq:
  "protocol_loop ps l =
     (if \<exists>p\<in>set ps. startsWith l p then Some (Error ''Dangerous protocol detected'') else None)"
  by (induction ps) auto

lemma xss_loop_eq:
  "xss_loop rs s =
     (if \<exists>r\<in>set rs. regex_test r s then Some (Error ''XSS pattern detected'') else None)"
  by (induction rs) auto

lemma params_loop_filter:
  "params_loop ps acc = acc @ filter (\<lambda>(k, v). toLowerCase k \<notin> set dangerousParams) ps"
  by (induction ps arbitrary: acc) auto

lemma catch_facts:
  "includes_str ''Dangerous protocol detected'' ''Dangerous''"
  "includes_str ''XSS pattern detected'' ''XSS''"
  "\<not> includes_str ''Invalid URL'' ''Dangerous''"
  "\<not> includes_str ''Invalid URL'' ''XSS''"
  by code_simp+

lemma sanitize_catch_security:
  "sanitize_catch (Error ''Dangerous protocol detected'') = Inl (Error ''Dangerous protocol detected'')"
  "sanitize_catch (Error ''XSS pattern detected'') = Inl (Error ''XSS pattern detected'')"
  "sanitize_catch (TypeError ''Invalid URL'') = Inl (Error ''Invalid URL format'')"
  using catch_facts by (simp_all add: sanitize_catch_def)

text \<open>
  Claim C4. For every constructor and input: if the trimmed, lowercased input starts
  with a denylisted scheme, \<open>sanitize\<close> fails with \<open>Dangerous protocol detected\<close>; otherwise,
  if one of the XSS patterns matches the trimmed input, with \<open>XSS pattern detected\<close>;
  otherwise, if the constructor throws, with \<open>Invalid URL format\<close>. An error with one of
  the two security messages raised in the body leaves \<open>sanitize\<close> as it is.
\<close>

theorem sanitize_errors:
  "((\<exists>p\<in>set dangerousProtocols. startsWith (toLowerCase (trim url)) p) \<longrightarrow>
      sanitize new_URL url = Inl (Error ''Dangerous protocol detected'')) \<and>
   ((\<forall>p\<in>set dangerousProtocols. \<not> startsWith (toLowerCase (trim url)) p) \<and>
    (\<exists>r\<in>set xssPatterns. regex_test r (trim url)) \<longrightarrow>
      sanitize new_URL url = Inl (Error ''XSS pattern detected'')) \<and>
   ((\<forall>p\<in>set dangerousProtocols. \<not> startsWith (toLowerCase (trim url)) p) \<and>
    (\<forall>r\<in>set xssPatterns. \<not> regex_test r (trim url)) \<and> new_URL (trim url) = None \<longrightarrow>
      sanitize new_URL url = Inl (Error ''Invalid URL format'')) \<and>
   (\<forall>e. sanitize_try new_URL url = Inl e \<and>
        (e = Error ''Dangerous protocol detected'' \<or> e = Error ''XSS pattern detected'') \<longrightarrow>
      sanitize new_URL url = Inl e)"
proof (intro conjI impI allI)
  assume "\<exists>p\<in>set dangerousProtocols. startsWith (toLowerCase (trim url)) p"
  then show "sanitize new_URL url = Inl (Error ''Dangerous protocol detected'')"
    by (simp add: sanitize_def sanitize_try_def Let_def protocol_loop_eq sanitize_catch_security)
next
  assume "(\<forall>p\<in>set dangerousProtocols. \<not> startsWith (toLowerCase (trim url)) p) \<and>
    (\<exists>r\<in>set xssPatterns. regex_test r (trim url))"
  then show "sanitize new_URL url = Inl (Error ''XSS pattern detected'')"
    by (simp add: sanitize_def sanitize_try_def Let_def protocol_loop_eq xss_loop_eq
        sanitize_catch_security)
next
  assume "(\<forall>p\<in>set dangerousProtocols. \<not> startsWith (toLowerCase (trim url)) p) \<and>
    (\<forall>r\<in>set xssPatterns. \<not> regex_test r (trim url)) \<and> new_URL (trim url) = None"
  then show "sanitize new_URL url = Inl (Error ''Invalid URL format'')"
    by (simp add: sanitize_def sanitize_try_def Let_def protocol_loop_eq xss_loop_eq
        sanitize_catch_security)
next
  fix e
  assume "sanitize_try new_URL url = Inl e \<and>
        (e = Error ''Dangerous protocol detected'' \<or> e = Error ''XSS pattern detected'')"
  then show "sanitize new_URL url = Inl e"
    by (auto simp: sanitize_def sanitize_catch_security)
qed

lemma security_examples:
  "startsWith (toLowerCase (trim ''javascript:alert(1)'')) ''javascript:''"
  "''javascript:'' \<in> set dangerousProtocols"
  "\<forall>p\<in>set dangerousProtocols. \<not> startsWith (toLowerCase (trim ''https://example.com/?onclick=evil'')) p"
  "regex_test [lits ''onclick=''] (trim ''https://example.com/?onclick=evil'')"
  "[lits ''onclick=''] \<in> set xssPatterns"
  "\<forall>p\<in>set dangerousProtocols. \<not> startsWith (toLowerCase (trim ''not-a-url'')) p"
  "\<forall>r\<in>set xssPatterns. \<not> regex_test r (trim ''not-a-url'')"
  "URL_parse (trim ''not-a-url'') = None"
  by code_simp+

theorem sanitize_errors_witness:
  "sanitize URL_parse ''javascript:alert(1)'' = Inl (Error ''Dangerous protocol detected'') \<and>
   sanitize URL_parse ''https://example.com/?onclick=evil'' = Inl (Error ''XSS pattern detected'') \<and>
   sanitize URL_parse ''not-a-url'' = Inl (Error ''Invalid URL format'')"
  using sanitize_errors[of "''javascript:alert(1)''" URL_parse]
    sanitize_errors[of "''https://example.com/?onclick=evil''" URL_parse]
    sanitize_errors[of "''not-a-url''" URL_parse]
    security_examples
  by blast

lemma join_empty_iff:
  "\<forall>x\<in>set xs. x \<noteq> [] \<Longrightarrow> join sep xs = [] \<longleftrightarrow> xs = []"
  by (induction sep xs rule: join.induct) auto

lemma URLSearchParams_toString_empty: "URLSearchParams_toString ps = [] \<longleftrightarrow> ps = []"
  unfolding URLSearchParams_toString_def
  by (subst join_empty_iff) auto

lemma sanitize_Inr:
  assumes "\<forall>p\<in>set dangerousProtocols. \<not> startsWith (toLowerCase (trim url)) p"
    and "\<forall>r\<in>set xssPatterns. \<not> regex_test r (trim url)"
    and "new_URL (trim url) = Some u"
  shows "sanitize new_URL url =
        Inr (protocol u @ ''//'' @ host u @ pathname u @
             (if filter (\<lambda>(k, v). toLowerCase k \<notin> set dangerousParams) (searchParams u) = []
              then []
              else ''?'' @ URLSearchParams_toString
                     (filter (\<lambda>(k, v). toLowerCase k \<notin> set dangerousParams) (searchParams u))))"
  using assms
  by (simp add: sanitize_def sanitize_try_def Let_def protocol_loop_eq xss_loop_eq
      params_loop_filter URLSearchParams_toString_empty)


text \<open>
  Claim C5. For every input that passes the two security checks and that the constructor
  accepts, \<open>sanitize\<close> returns scheme, \<open>//\<close>, host and path of the parsed URL, followed,
  if any parameter survives, by \<open>?\<close> and the serialised parameters whose lowercased key
  is not in the denylist, in their original order; nothing of the fragment is appended.
  The two examples of the specification evaluate as stated.
\<close>

theorem sanitize_result:
  "(\<forall>new_URL url u.
      (\<forall>p\<in>set dangerousProtocols. \<not> startsWith (toLowerCase (trim url)) p) \<and>
      (\<forall>r\<in>set xssPatterns. \<not> regex_test r (trim url)) \<and>
      new_URL (trim url) = Some u \<longrightarrow>
      sanitize new_URL url =
        Inr (protocol u @ ''//'' @ host u @ pathname u @
             (if filter (\<lambda>(k, v). toLowerCase k \<notin> set dangerousParams) (searchParams u) = []
              then []
              else ''?'' @ URLSearchParams_toString
                     (filter (\<lambda>(k, v). toLowerCase k \<notin> set dangerousParams) (searchParams u))))) \<and>
   sanitize URL_parse ''https://instagram.com/p/ABC123?callback=evil'' =
     Inr ''https://instagram.com/p/ABC123'' \<and>
   sanitize URL_parse ''https://example.com?url=bad&safe=ok'' = Inr ''https://example.com/?safe=ok''"
proof (intro conjI allI impI)
  fix new_URL :: URL_constructor and url u
  assume "(\<forall>p\<in>set dangerousProtocols. \<not> startsWith (toLowerCase (trim url)) p) \<and>
      (\<forall>r\<in>set xssPatterns. \<not> regex_test r (trim url)) \<and>
      new_URL (trim url) = Some u"
  then show "sanitize new_URL url =
        Inr (protocol u @ ''//'' @ host u @ pathname u @
             (if filter (\<lambda>(k, v). toLowerCase k \<notin> set dangerousParams) (searchParams u) = []
              then []
              else ''?'' @ URLSearchParams_toString
                     (filter (\<lambda>(k, v). toLowerCase k \<notin> set dangerousParams) (searchParams u))))"
    using sanitize_Inr by blast
next
  show "sanitize URL_parse ''https://instagram.com/p/ABC123?callback=evil'' =
     Inr ''https://instagram.com/p/ABC123''"
    by code_simp
next
  show "sanitize URL_parse ''https://example.com?url=bad&safe=ok'' = Inr ''https://example.com/?safe=ok''"
    by code_simp
qed

lemma query_test_facts:
  "\<forall>p\<in>set dangerousProtocols.
     \<not> startsWith (toLowerCase (trim ''https://instagram.com/p/ABC123?b=2&Next=x&a=1'')) p"
  "\<forall>r\<in>set xssPatterns. \<not> regex_test r (trim ''https://instagram.com/p/ABC123?b=2&Next=x&a=1'')"
  "URL_parse (trim ''https://instagram.com/p/ABC123?b=2&Next=x&a=1'') =
     Some \<lparr>protocol = ''https:'', host = ''instagram.com'', pathname = ''/p/ABC123'',
           searchParams = [(''b'', ''2''), (''Next'', ''x''), (''a'', ''1'')]\<rparr>"
  by code_simp+

lemma query_test_rhs:
  "protocol \<lparr>protocol = ''https:'', host = ''instagram.com'', pathname = ''/p/ABC123'',
           searchParams = [(''b'', ''2''), (''Next'', ''x''), (''a'', ''1'')]\<rparr> @ ''//'' @
   host \<lparr>protocol = ''https:'', host = ''instagram.com'', pathname = ''/p/ABC123'',
           searchParams = [(''b'', ''2''), (''Next'', ''x''), (''a'', ''1'')]\<rparr> @
   pathname \<lparr>protocol = ''https:'', host = ''instagram.com'', pathname = ''/p/ABC123'',
           searchParams = [(''b'', ''2''), (''Next'', ''x''), (''a'', ''1'')]\<rparr> @
   (if filter (\<lambda>(k, v). toLowerCase k \<notin> set dangerousParams)
         (searchParams \<lparr>protocol = ''https:'', host = ''instagram.com'', pathname = ''/p/ABC123'',
           searchParams = [(''b'', ''2''), (''Next'', ''x''), (''a'', ''1'')]\<rparr>) = []
    then []
    else ''?'' @ URLSearchParams_toString
           (filter (\<lambda>(k, v). toLowerCase k \<notin> set dangerousParams)
              (searchParams \<lparr>protocol = ''https:'', host = ''instagram.com'', pathname = ''/p/ABC123'',
                 searchParams = [(''b'', ''2''), (''Next'', ''x''), (''a'', ''1'')]\<rparr>)))
   = ''https://instagram.com/p/ABC123?b=2&a=1''"
  by code_simp

theorem sanitize_result_witness:
  "sanitize URL_parse ''https://instagram.com/p/ABC123?b=2&Next=x&a=1'' =
     Inr ''https://instagram.com/p/ABC123?b=2&a=1''"
proof -
  have "sanitize URL_parse ''https://instagram.com/p/ABC123?b=2&Next=x&a=1'' =
     Inr (protocol \<lparr>protocol = ''https:'', host = ''instagram.com'', pathname = ''/p/ABC123'',
           searchParams = [(''b'', ''2''), (''Next'', ''x''), (''a'', ''1'')]\<rparr> @ ''//'' @
   host \<lparr>protocol = ''https:'', host = ''instagram.com'', pathname = ''/p/ABC123'',
           searchParams = [(''b'', ''2''), (''Next'', ''x''), (''a'', ''1'')]\<rparr> @
   pathname \<lparr>protocol = ''https:'', host = ''instagram.com'', pathname = ''/p/ABC123'',
           searchParams = [(''b'', ''2''), (''Next'', ''x''), (''a'', ''1'')]\<rparr> @
   (if filter (\<lambda>(k, v). toLowerCase k \<notin> set dangerousParams)
         (searchParams \<lparr>protocol = ''https:'', host = ''instagram.com'', pathname = ''/p/ABC123'',
           searchParams = [(''b'', ''2''), (''Next'', ''x''), (''a'', ''1'')]\<rparr>) = []
    then []
    else ''?'' @ URLSearchParams_toString
           (filter (\<lambda>(k, v). toLowerCase k \<notin> set dangerousParams)
              (searchParams \<lparr>protocol = ''https:'', host = ''instagram.com'', pathname = ''/p/ABC123'',
                 searchParams = [(''b'', ''2''), (''Next'', ''x''), (''a'', ''1'')]\<rparr>))))"
    using sanitize_result query_test_facts by blast
  then show ?thesis unfolding query_test_rhs .
qed

subsection \<open>Reading the output of \<open>sanitize\<close> again\<close>

text \<open>
  What the reference constructor prints it reads back unchanged: a number, a port, a host,
  a normalised path, and the serialised parameters.
\<close>

lemma of_char_range: "0 \<le> (of_char c :: int)" "(of_char c :: int) < 256"
  by (simp_all add: of_char_def)
















lemma percent_encode_append: "percent_encode S (a @ b) = percent_encode S a @ percent_encode S b"
  by (simp add: percent_encode_def)














































lemma ascii_fold_idem: "ascii_fold (ascii_fold c) = ascii_fold c"
  using of_char_range[of c] by (auto simp: ascii_fold_def Let_def)

lemma map_ascii_fold_idem: "map ascii_fold (map ascii_fold s) = map ascii_fold s"
  by (simp add: ascii_fold_idem)














































text \<open>
  The condition on the path is needed as well: a path that neither is empty nor begins
  with \<open>/\<close> is glued to \<open>//\<close>; here it comes back as user name and host, and the second
  pass drops the user name.
\<close>

lemma sanitize_not_idempotent_opaque_path:
  "sanitize URL_parse ''mailto:foo@bar.com'' = Inr ''mailto://foo@bar.com'' \<and>
   sanitize URL_parse ''mailto://foo@bar.com'' = Inr ''mailto://bar.com''"
  by code_simp

end
